theory Spec2Isabelle
  imports Main "HOL-Library.Word"
begin

section \<open>Go values shared by the packages\<close>

text \<open>
  A Go \<open>error\<close> value. \<open>New msg\<close> is an error made without a cause
  (\<open>fmt.Errorf\<close> with no \<open>%w\<close> verb); \<open>Errorf prefix cause\<close> is
  \<open>fmt.Errorf("prefix: %w", cause)\<close>, which keeps the cause reachable by
  \<open>errors.Unwrap\<close>. A function returning \<open>error\<close> returns
  \<open>go_error option\<close>, \<open>None\<close> being \<open>nil\<close>.
\<close>

datatype go_error = New string | Errorf string go_error

fun Error :: "go_error \<Rightarrow> string" where
  "Error (New msg) = msg"
| "Error (Errorf prefix cause) = prefix @ '': '' @ Error cause"

fun root_cause :: "go_error \<Rightarrow> go_error" where
  "root_cause (New msg) = New msg"
| "root_cause (Errorf prefix cause) = root_cause cause"

text \<open>
  A Go slice is either \<open>nil\<close> or a (possibly empty) sequence of elements;
  \<open>len\<close> is 0 for both \<open>nil\<close> and the empty slice.
\<close>

datatype 'a slice = nil | Slice "'a list"

fun elems :: "'a slice \<Rightarrow> 'a list" where
  "elems nil = []"
| "elems (Slice xs) = xs"

definition len :: "'a slice \<Rightarrow> nat" where
  "len s = length (elems s)"

text \<open>
  \<open>strings.TrimRight(s, cutset)\<close>: \<open>s\<close> without its trailing characters
  that occur in \<open>cutset\<close>.
\<close>

definition TrimRight :: "string \<Rightarrow> string \<Rightarrow> string" where
  "TrimRight s cutset = rev (dropWhile (\<lambda>c. c \<in> set cutset) (rev s))"

text \<open>
  The outcome of running a Go function: it returns its results, or the goroutine
  panics (a nil pointer dereference below) and nothing is returned.
\<close>

datatype 'a outcome = Returned 'a | Panicked string


section \<open>Package sopsencrypt: the \<open>.sops.yaml\<close> renderer\<close>

text \<open>
  \<open>sopsCreationRule\<close> and \<open>sopsFileConfig\<close> with their fields; the YAML struct
  tags are \<open>path_regex,omitempty\<close>, \<open>hc_vault_transit_uri\<close> and
  \<open>creation_rules\<close>.
\<close>

record sopsCreationRule =
  PathRegex :: string
  HCVaultTransitURI :: string

record sopsFileConfig =
  CreationRules :: "sopsCreationRule list"

text \<open>
  The document a struct marshals to under its tags: a mapping lists its fields in
  declaration order under the tag names, and a field tagged \<open>omitempty\<close> is left
  out when it holds the zero value (the empty string).
\<close>

datatype yaml_node =
    Scalar string
  | Mapping "(string \<times> yaml_node) list"
  | Sequence "yaml_node list"

definition marshal_rule :: "sopsCreationRule \<Rightarrow> yaml_node" where
  "marshal_rule r =
     Mapping ((if PathRegex r = [] then [] else [(''path_regex'', Scalar (PathRegex r))])
              @ [(''hc_vault_transit_uri'', Scalar (HCVaultTransitURI r))])"

definition marshal_config :: "sopsFileConfig \<Rightarrow> yaml_node" where
  "marshal_config cfg =
     Mapping [(''creation_rules'', Sequence (map marshal_rule (CreationRules cfg)))]"

text \<open>
  The text rendering of \<open>yaml.v3\<close> is a parameter: \<open>enc_Encode indent doc\<close> is
  what \<open>enc.Encode(cfg)\<close> writes to the buffer after \<open>enc.SetIndent(indent)\<close>,
  \<open>enc_Close indent doc\<close> what \<open>enc.Close()\<close> flushes after it; either may fail.
\<close>

record yaml_Encoder =
  enc_Encode :: "nat \<Rightarrow> yaml_node \<Rightarrow> go_error + string"
  enc_Close :: "nat \<Rightarrow> yaml_node \<Rightarrow> go_error + string"

text \<open>The first statement of \<open>GenerateSOPSConfig\<close>: the Vault URI of every rule.\<close>

definition key_uri :: "string \<Rightarrow> string \<Rightarrow> string \<Rightarrow> string" where
  "key_uri vaultAddress transitPath keyName =
     TrimRight vaultAddress ''/'' @ ''/v1/'' @ transitPath @ ''/keys/'' @ keyName"

text \<open>
  The loop \<open>for i, re := range pathRegexes { rules[i] = sopsCreationRule{...} }\<close>
  over the array made by \<open>make([]sopsCreationRule, len(pathRegexes))\<close>. Every index
  the loop writes is below the length, so the assignment never panics.
\<close>

fun fill_rules :: "string \<Rightarrow> (nat \<times> string) list \<Rightarrow> sopsCreationRule list \<Rightarrow> sopsCreationRule list" where
  "fill_rules uri [] rules = rules"
| "fill_rules uri ((i, re) # rest) rules =
     fill_rules uri rest (rules[i := \<lparr>PathRegex = re, HCVaultTransitURI = uri\<rparr>])"

definition creation_rules :: "string \<Rightarrow> string slice \<Rightarrow> sopsCreationRule list" where
  "creation_rules uri pathRegexes =
     (if len pathRegexes = 0 then [\<lparr>PathRegex = [], HCVaultTransitURI = uri\<rparr>]
      else fill_rules uri (enumerate 0 (elems pathRegexes))
             (replicate (len pathRegexes) \<lparr>PathRegex = [], HCVaultTransitURI = []\<rparr>))"

text \<open>The value \<open>cfg\<close> handed to the encoder, as the document it marshals to.\<close>

definition config_document :: "string \<Rightarrow> string \<Rightarrow> string \<Rightarrow> string slice \<Rightarrow> yaml_node" where
  "config_document vaultAddress transitPath keyName pathRegexes =
     marshal_config
       \<lparr>CreationRules = creation_rules (key_uri vaultAddress transitPath keyName) pathRegexes\<rparr>"

text \<open>
  The last part of \<open>GenerateSOPSConfig\<close>, from \<open>yaml.NewEncoder(&buf)\<close> on: the
  document is encoded with indent 2 into the buffer, the encoder is closed, and the
  buffer is returned; an error of either step is returned with the empty string.
\<close>

definition encode_document :: "yaml_Encoder \<Rightarrow> yaml_node \<Rightarrow> string \<times> go_error option" where
  "encode_document Y doc =
     (case enc_Encode Y 2 doc of
        Inl err \<Rightarrow> ([], Some (Errorf ''marshaling sops config'' err))
      | Inr written \<Rightarrow>
          (case enc_Close Y 2 doc of
             Inl err \<Rightarrow> ([], Some (Errorf ''closing yaml encoder'' err))
           | Inr flushed \<Rightarrow> (written @ flushed, None)))"

definition GenerateSOPSConfig ::
  "yaml_Encoder \<Rightarrow> string \<Rightarrow> string \<Rightarrow> string \<Rightarrow> string slice \<Rightarrow> string \<times> go_error option" where
  "GenerateSOPSConfig Y vaultAddress transitPath keyName pathRegexes =
     encode_document Y (config_document vaultAddress transitPath keyName pathRegexes)"


section \<open>Package sopsencrypt: envelope encryption\<close>

subsection \<open>Data\<close>

record EncryptOpts =
  UnencryptedSuffix :: string
  EncryptedSuffix :: string
  UnencryptedRegex :: string
  EncryptedRegex :: string
  PrettyJSON :: bool

text \<open>A value of type \<open>interface{}\<close>, as found in a decoded Vault response.\<close>

datatype iface =
    INil
  | IString string
  | IBool bool
  | INumber int
  | IList "iface list"
  | IMap "(string \<times> iface) list"

text \<open>
  \<open>vaultapi.Secret\<close>: the fields this package reads. Reading a key that a Go map
  does not hold (or reading a nil map) gives the nil interface, here \<open>None\<close>.
\<close>

record SecretAuth =
  ClientToken :: string

record Secret =
  Data :: "string \<rightharpoonup> iface"
  Auth :: "SecretAuth option"

text \<open>
  \<open>vaultapi.Client\<close>: the address it was configured with (\<open>cfg.Address\<close>) and the
  token set on it. What \<open>client.Address()\<close> returns for it is the library's to
  say (it parses the address and may rewrite it): \<open>client_Address\<close> below.
\<close>

record Client =
  ConfiguredAddress :: string
  Token :: string

text \<open>\<open>hcvault.MasterKey\<close>, \<open>sops.Metadata\<close> and \<open>sops.Tree\<close> as this package fills them.\<close>

record MasterKey =
  VaultAddress :: string
  EnginePath :: string
  KeyName :: string
  EncryptedKey :: string
  CreationDate :: nat

record Metadata =
  KeyGroups :: "MasterKey list list"
  Version :: string
  meta_UnencryptedSuffix :: string
  meta_EncryptedSuffix :: string
  meta_UnencryptedRegex :: string
  meta_EncryptedRegex :: string

record 'b Tree =
  Branches :: 'b
  TreeMetadata :: Metadata

subsection \<open>The libraries the package calls\<close>

text \<open>
  The functions of other modules that the package calls, as parameters: \<open>'b\<close> is
  the type of \<open>sops.TreeBranches\<close>, \<open>'r\<close> the state of the random source.
  A result \<open>Inl err\<close> is a non-nil error (\<open>Some err\<close> for \<open>NewClient\<close>, whose
  client is the record built from the configuration). \<open>Logical_Write\<close> has the two
  results of \<open>client.Logical().Write\<close>: \<open>Inr None\<close> is a nil \<open>*Secret\<close>
  returned with a nil error.
\<close>

record ('b, 'r) deps =
  LoadPlainFile :: "string \<Rightarrow> go_error + 'b"
  rand_Read :: "nat \<Rightarrow> 'r \<Rightarrow> (go_error + 8 word list) \<times> 'r"
  EncodeToString :: "8 word list \<Rightarrow> string"
  NewClient :: "string \<Rightarrow> go_error option"
  client_Address :: "Client \<Rightarrow> string"
  Logical_Write :: "Client \<Rightarrow> string \<Rightarrow> (string \<times> iface) list \<Rightarrow> go_error + Secret option"
  sops_Version :: string
  EncryptTree :: "8 word list \<Rightarrow> 'b Tree \<Rightarrow> 'r \<Rightarrow> (go_error + 'b Tree) \<times> 'r"
  json_EmitEncryptedFile :: "'b Tree \<Rightarrow> go_error + string"
  yaml_EmitEncryptedFile :: "'b Tree \<Rightarrow> go_error + string"
  json_Indent :: "string \<Rightarrow> string \<Rightarrow> string \<Rightarrow> go_error + string"

text \<open>
  What a call can observe and change outside its arguments: the random source, the
  clock, and the calls made to other modules so far, in order (a request written to
  Vault is recorded with its path and payload).
\<close>

datatype event =
    EvLoadPlainFile
  | EvRandRead
  | EvNewClient string
  | EvWrite string "(string \<times> iface) list"
  | EvEncryptTree
  | EvEmit
  | EvIndent

record 'r world =
  rng :: 'r
  clock :: nat
  trace :: "event list"

definition record_call :: "event \<Rightarrow> 'r world \<Rightarrow> 'r world" where
  "record_call ev w = w\<lparr>trace := trace w @ [ev]\<rparr>"

text \<open>The key-wrap requests among a sequence of calls.\<close>

fun is_Write :: "event \<Rightarrow> bool" where
  "is_Write (EvWrite path payload) = True"
| "is_Write ev = False"

definition wrap_calls :: "event list \<Rightarrow> nat" where
  "wrap_calls evs = length (filter is_Write evs)"

subsection \<open>The client\<close>

definition NewVaultClient ::
  "('b, 'r) deps \<Rightarrow> string \<Rightarrow> string \<Rightarrow> 'r world \<Rightarrow> (go_error + Client) \<times> 'r world" where
  "NewVaultClient L address token w =
     (case NewClient L address of
        Some err \<Rightarrow> (Inl (Errorf ''creating vault client'' err), record_call (EvNewClient address) w)
      | None \<Rightarrow> (Inr \<lparr>ConfiguredAddress = address, Token = token\<rparr>, record_call (EvNewClient address) w))"

text \<open>
  \<open>AppRoleLogin\<close>. It checks the secret for nil before it reads a field of it.
\<close>

definition AppRoleLogin ::
  "('b, 'r) deps \<Rightarrow> string \<Rightarrow> string \<Rightarrow> string \<Rightarrow> string \<Rightarrow> 'r world \<Rightarrow> (string \<times> go_error option) outcome \<times> 'r world" where
  "AppRoleLogin L address approlePath roleID secretID w =
     (case NewVaultClient L address [] w of
        (Inl err, w1) \<Rightarrow> (Returned ([], Some err), w1)
      | (Inr client, w1) \<Rightarrow>
          (let path = ''auth/'' @ approlePath @ ''/login'';
               payload = [(''role_id'', IString roleID), (''secret_id'', IString secretID)];
               w2 = record_call (EvWrite path payload) w1 in
           case Logical_Write L client path payload of
             Inl err \<Rightarrow>
               (Returned ([], Some (Errorf (''approle login at auth/'' @ approlePath @ ''/login'') err)), w2)
           | Inr None \<Rightarrow>
               (Returned ([], Some (New ''approle login: empty auth response from Vault'')), w2)
           | Inr (Some secret) \<Rightarrow>
               (case Auth secret of
                  None \<Rightarrow> (Returned ([], Some (New ''approle login: empty auth response from Vault'')), w2)
                | Some auth \<Rightarrow> (Returned (ClientToken auth, None), w2))))"

subsection \<open>Data key and key wrap\<close>

text \<open>
  \<open>generateDataKey\<close>: \<open>key\<close> is a buffer of 32 bytes, and \<open>rand.Read\<close> can only
  write into it, so whatever the source delivers the key has 32 bytes.
\<close>

definition fill :: "nat \<Rightarrow> 8 word list \<Rightarrow> 8 word list" where
  "fill n bs = take n (bs @ replicate n 0)"

definition generateDataKey ::
  "('b, 'r) deps \<Rightarrow> 'r world \<Rightarrow> (8 word list \<times> go_error option) \<times> 'r world" where
  "generateDataKey L w =
     (case rand_Read L 32 (rng w) of
        (Inl err, r) \<Rightarrow>
          (([], Some (Errorf ''generating data key'' err)), record_call EvRandRead (w\<lparr>rng := r\<rparr>))
      | (Inr bs, r) \<Rightarrow>
          ((fill 32 bs, None), record_call EvRandRead (w\<lparr>rng := r\<rparr>)))"

text \<open>
  \<open>wrapDataKey\<close>. After the error check it reads \<open>secret.Data\<close> with no check
  that \<open>secret\<close> is not nil: on a nil secret the read panics. The checked type
  assertion \<open>.(string)\<close> fails (\<open>ok\<close> false) on a missing key and on any value
  that is not a string.
\<close>

definition wrapDataKey ::
  "('b, 'r) deps \<Rightarrow> Client \<Rightarrow> string \<Rightarrow> string \<Rightarrow> 8 word list \<Rightarrow> 'r world \<Rightarrow> (string \<times> go_error option) outcome \<times> 'r world" where
  "wrapDataKey L client transitPath keyName dataKey w =
     (let path = transitPath @ ''/encrypt/'' @ keyName;
          payload = [(''plaintext'', IString (EncodeToString L dataKey))];
          w1 = record_call (EvWrite path payload) w in
      case Logical_Write L client path payload of
        Inl err \<Rightarrow> (Returned ([], Some (Errorf (''vault transit encrypt ('' @ path @ '')'') err)), w1)
      | Inr None \<Rightarrow> (Panicked ''nil pointer dereference'', w1)
      | Inr (Some secret) \<Rightarrow>
          (case Data secret ''ciphertext'' of
             Some (IString ct) \<Rightarrow> (Returned (ct, None), w1)
           | _ \<Rightarrow> (Returned ([], Some (New ''unexpected vault response: ciphertext not a string'')), w1)))"

subsection \<open>The shared implementation and its two entry points\<close>

definition document_tree ::
  "('b, 'r) deps \<Rightarrow> Client \<Rightarrow> string \<Rightarrow> string \<Rightarrow> EncryptOpts \<Rightarrow> 'b \<Rightarrow> string \<Rightarrow> nat \<Rightarrow> 'b Tree" where
  "document_tree L client transitPath keyName opts branches encryptedKey now =
     \<lparr>Branches = branches,
      TreeMetadata =
        \<lparr>KeyGroups =
           [[\<lparr>VaultAddress = client_Address L client, EnginePath = transitPath, KeyName = keyName,
              EncryptedKey = encryptedKey, CreationDate = now\<rparr>]],
         Version = sops_Version L,
         meta_UnencryptedSuffix = UnencryptedSuffix opts,
         meta_EncryptedSuffix = EncryptedSuffix opts,
         meta_UnencryptedRegex = UnencryptedRegex opts,
         meta_EncryptedRegex = EncryptedRegex opts\<rparr>\<rparr>"

definition encryptDocument ::
  "('b, 'r) deps \<Rightarrow> Client \<Rightarrow> string \<Rightarrow> string \<Rightarrow> string \<Rightarrow> EncryptOpts \<Rightarrow>
   ('b Tree \<Rightarrow> go_error + string) \<Rightarrow> 'r world \<Rightarrow> (string \<times> go_error option) outcome \<times> 'r world" where
  "encryptDocument L client transitPath keyName jsonContent opts emit w =
     (let w1 = record_call EvLoadPlainFile w in
      case LoadPlainFile L jsonContent of
        Inl err \<Rightarrow> (Returned ([], Some (Errorf ''parsing content as JSON'' err)), w1)
      | Inr branches \<Rightarrow>
          (case generateDataKey L w1 of
             ((_, Some err), w2) \<Rightarrow> (Returned ([], Some err), w2)
           | ((dataKey, None), w2) \<Rightarrow>
               (case wrapDataKey L client transitPath keyName dataKey w2 of
                  (Panicked p, w3) \<Rightarrow> (Panicked p, w3)
                | (Returned (_, Some err), w3) \<Rightarrow> (Returned ([], Some err), w3)
                | (Returned (encryptedKey, None), w3) \<Rightarrow>
                    (let tree = document_tree L client transitPath keyName opts branches
                                  encryptedKey (clock w3);
                         w4 = record_call EvEncryptTree w3 in
                     case EncryptTree L dataKey tree (rng w4) of
                       (Inl err, r) \<Rightarrow>
                         (Returned ([], Some (Errorf ''encrypting tree'' err)), w4\<lparr>rng := r\<rparr>)
                     | (Inr tree', r) \<Rightarrow>
                         (let w5 = record_call EvEmit (w4\<lparr>rng := r\<rparr>) in
                          case emit tree' of
                            Inl err \<Rightarrow>
                              (Returned ([], Some (Errorf ''emitting encrypted document'' err)), w5)
                          | Inr out \<Rightarrow> (Returned (out, None), w5))))))"

definition EncryptToJSON ::
  "('b, 'r) deps \<Rightarrow> Client \<Rightarrow> string \<Rightarrow> string \<Rightarrow> string \<Rightarrow> EncryptOpts \<Rightarrow> 'r world \<Rightarrow>
   (string \<times> go_error option) outcome \<times> 'r world" where
  "EncryptToJSON L client transitPath keyName jsonContent opts w =
     (case encryptDocument L client transitPath keyName jsonContent opts (json_EmitEncryptedFile L) w of
        (Panicked p, w1) \<Rightarrow> (Panicked p, w1)
      | (Returned (_, Some err), w1) \<Rightarrow> (Returned ([], Some err), w1)
      | (Returned (out, None), w1) \<Rightarrow>
          (if PrettyJSON opts then
             (case json_Indent L out [] ''  '' of
                Inl err \<Rightarrow> (Returned ([], Some (Errorf ''pretty-printing JSON'' err)), record_call EvIndent w1)
              | Inr buf \<Rightarrow> (Returned (buf, None), record_call EvIndent w1))
           else (Returned (out, None), w1)))"

definition EncryptToYAML ::
  "('b, 'r) deps \<Rightarrow> Client \<Rightarrow> string \<Rightarrow> string \<Rightarrow> string \<Rightarrow> EncryptOpts \<Rightarrow> 'r world \<Rightarrow>
   (string \<times> go_error option) outcome \<times> 'r world" where
  "EncryptToYAML L client transitPath keyName jsonContent opts w =
     (case encryptDocument L client transitPath keyName jsonContent opts (yaml_EmitEncryptedFile L) w of
        (Panicked p, w1) \<Rightarrow> (Panicked p, w1)
      | (Returned (_, Some err), w1) \<Rightarrow> (Returned ([], Some err), w1)
      | (Returned (out, None), w1) \<Rightarrow> (Returned (out, None), w1))"

section \<open>Package provider: the two resources\<close>

text \<open>\<open>types.String\<close> and \<open>types.Bool\<close> of the plugin framework: null, unknown or known.\<close>

datatype tf_string = StringNull | StringUnknown | StringValue string

fun IsNull :: "tf_string \<Rightarrow> bool" where
  "IsNull StringNull = True"
| "IsNull v = False"

fun IsUnknown :: "tf_string \<Rightarrow> bool" where
  "IsUnknown StringUnknown = True"
| "IsUnknown v = False"

fun ValueString :: "tf_string \<Rightarrow> string" where
  "ValueString (StringValue s) = s"
| "ValueString v = []"

datatype tf_bool = BoolNull | BoolUnknown | BoolValue bool

fun ValueBool :: "tf_bool \<Rightarrow> bool" where
  "ValueBool (BoolValue b) = b"
| "ValueBool v = False"

text \<open>
  \<open>encryptedYAMLModel\<close>, and \<open>encryptedJSONModel\<close>, which has the same fields and
  \<open>pretty\<close>. The two resources declare the same \<open>validateScope\<close>, each on its
  own model; it reads the four scope fields only, so one definition serves both.
\<close>

record encryptedYAMLModel =
  ID :: tf_string
  Content :: tf_string
  VaultKeyName :: tf_string
  attr_UnencryptedSuffix :: tf_string
  attr_EncryptedSuffix :: tf_string
  attr_UnencryptedRegex :: tf_string
  attr_EncryptedRegex :: tf_string
  Ciphertext :: tf_string

record encryptedJSONModel = encryptedYAMLModel +
  Pretty :: tf_bool

record sopsProviderData =
  vaultAddress :: string
  vaultToken :: string
  vaultTransitEngine :: string

datatype severity = SeverityError | SeverityWarning

record diagnostic =
  Severity :: severity
  Summary :: string
  Detail :: string

definition HasError :: "diagnostic list \<Rightarrow> bool" where
  "HasError ds = list_ex (\<lambda>d. Severity d = SeverityError) ds"

text \<open>
  \<open>resource.CreateResponse\<close>: the diagnostics, and the value \<open>Create\<close> handed to
  \<open>resp.State.Set\<close> (\<open>None\<close> while it has not called it).
\<close>

record 'm CreateResponse =
  Diagnostics :: "diagnostic list"
  State :: "'m option"

definition AddError :: "string \<Rightarrow> string \<Rightarrow> 'm CreateResponse \<Rightarrow> 'm CreateResponse" where
  "AddError summary detail resp =
     resp\<lparr>Diagnostics := Diagnostics resp @ [\<lparr>Severity = SeverityError, Summary = summary, Detail = detail\<rparr>]\<rparr>"

text \<open>The loop of \<open>validateScope\<close> with its counter, and the test of one field.\<close>

definition is_set :: "tf_string \<Rightarrow> bool" where
  "is_set v = (\<not> IsNull v \<and> \<not> IsUnknown v \<and> ValueString v \<noteq> [])"

fun count_set :: "tf_string list \<Rightarrow> nat \<Rightarrow> nat" where
  "count_set [] n = n"
| "count_set (v # vs) n = count_set vs (if is_set v then n + 1 else n)"

definition scope_attrs :: "'a encryptedYAMLModel_scheme \<Rightarrow> tf_string list" where
  "scope_attrs data =
     [attr_UnencryptedSuffix data, attr_EncryptedSuffix data,
      attr_UnencryptedRegex data, attr_EncryptedRegex data]"

definition validateScope :: "'a encryptedYAMLModel_scheme \<Rightarrow> go_error option" where
  "validateScope data =
     (if count_set (scope_attrs data) 0 > 1
      then Some (New ''at most one of unencrypted_suffix, encrypted_suffix, unencrypted_regex, encrypted_regex may be set'')
      else None)"

definition encrypt_json ::
  "('b, 'r) deps \<Rightarrow> sopsProviderData \<Rightarrow> encryptedJSONModel \<Rightarrow> 'r world \<Rightarrow>
   (string \<times> go_error option) outcome \<times> 'r world" where
  "encrypt_json L pd data w =
     (case NewVaultClient L (vaultAddress pd) (vaultToken pd) w of
        (Inl err, w1) \<Rightarrow> (Returned ([], Some err), w1)
      | (Inr client, w1) \<Rightarrow>
          EncryptToJSON L client (vaultTransitEngine pd) (ValueString (VaultKeyName data))
            (ValueString (Content data))
            \<lparr>UnencryptedSuffix = ValueString (attr_UnencryptedSuffix data),
             EncryptedSuffix = ValueString (attr_EncryptedSuffix data),
             UnencryptedRegex = ValueString (attr_UnencryptedRegex data),
             EncryptedRegex = ValueString (attr_EncryptedRegex data),
             PrettyJSON = ValueBool (Pretty data)\<rparr> w1)"

definition encrypt_yaml ::
  "('b, 'r) deps \<Rightarrow> sopsProviderData \<Rightarrow> encryptedYAMLModel \<Rightarrow> 'r world \<Rightarrow>
   (string \<times> go_error option) outcome \<times> 'r world" where
  "encrypt_yaml L pd data w =
     (case NewVaultClient L (vaultAddress pd) (vaultToken pd) w of
        (Inl err, w1) \<Rightarrow> (Returned ([], Some err), w1)
      | (Inr client, w1) \<Rightarrow>
          EncryptToYAML L client (vaultTransitEngine pd) (ValueString (VaultKeyName data))
            (ValueString (Content data))
            \<lparr>UnencryptedSuffix = ValueString (attr_UnencryptedSuffix data),
             EncryptedSuffix = ValueString (attr_EncryptedSuffix data),
             UnencryptedRegex = ValueString (attr_UnencryptedRegex data),
             EncryptedRegex = ValueString (attr_EncryptedRegex data),
             PrettyJSON = False\<rparr> w1)"

text \<open>
  \<open>Create\<close> of either resource, given its \<open>encrypt\<close>: \<open>plan_diags\<close> and
  \<open>data\<close> are the results of \<open>req.Plan.Get(ctx, &data)\<close>, and \<open>set_diags\<close> the
  diagnostics of \<open>resp.State.Set\<close>.
\<close>

definition Create ::
  "('a encryptedYAMLModel_scheme \<Rightarrow> 'r world \<Rightarrow> (string \<times> go_error option) outcome \<times> 'r world) \<Rightarrow>
   ('a encryptedYAMLModel_scheme \<Rightarrow> diagnostic list) \<Rightarrow> diagnostic list \<Rightarrow>
   'a encryptedYAMLModel_scheme \<Rightarrow> 'r world \<Rightarrow>
   ('a encryptedYAMLModel_scheme) CreateResponse outcome \<times> 'r world" where
  "Create encrypt set_diags plan_diags data w =
     (let resp = \<lparr>Diagnostics = plan_diags, State = None\<rparr> in
      if HasError (Diagnostics resp) then (Returned resp, w)
      else
        (case validateScope data of
           Some err \<Rightarrow> (Returned (AddError ''Invalid scope configuration'' (Error err) resp), w)
         | None \<Rightarrow>
             (case encrypt data w of
                (Panicked p, w1) \<Rightarrow> (Panicked p, w1)
              | (Returned (_, Some err), w1) \<Rightarrow>
                  (Returned (AddError ''SOPS encryption failed'' (Error err) resp), w1)
              | (Returned (ciphertext, None), w1) \<Rightarrow>
                  (let data' = data\<lparr>ID := StringValue (ValueString (VaultKeyName data)),
                                       Ciphertext := StringValue ciphertext\<rparr> in
                   (Returned (resp\<lparr>Diagnostics := Diagnostics resp @ set_diags data',
                                     State := Some data'\<rparr>), w1)))))"

definition Create_json ::
  "('b, 'r) deps \<Rightarrow> sopsProviderData \<Rightarrow> (encryptedJSONModel \<Rightarrow> diagnostic list) \<Rightarrow>
   diagnostic list \<Rightarrow> encryptedJSONModel \<Rightarrow> 'r world \<Rightarrow>
   encryptedJSONModel CreateResponse outcome \<times> 'r world" where
  "Create_json L pd = Create (encrypt_json L pd)"

definition Create_yaml ::
  "('b, 'r) deps \<Rightarrow> sopsProviderData \<Rightarrow> (encryptedYAMLModel \<Rightarrow> diagnostic list) \<Rightarrow>
   diagnostic list \<Rightarrow> encryptedYAMLModel \<Rightarrow> 'r world \<Rightarrow>
   encryptedYAMLModel CreateResponse outcome \<times> 'r world" where
  "Create_yaml L pd = Create (encrypt_yaml L pd)"


section \<open>Notions the statements use\<close>

text \<open>The calls a run made: what it appended to the trace it started from.\<close>

definition calls_during :: "'r world \<Rightarrow> 'r world \<Rightarrow> event list" where
  "calls_during w w' = drop (length (trace w)) (trace w')"

text \<open>The key-wrap request \<open>wrapDataKey\<close> writes for a data key.\<close>

definition wrap_request :: "('b, 'r) deps \<Rightarrow> string \<Rightarrow> string \<Rightarrow> 8 word list \<Rightarrow> event" where
  "wrap_request L transitPath keyName dataKey =
     EvWrite (transitPath @ ''/encrypt/'' @ keyName)
       [(''plaintext'', IString (EncodeToString L dataKey))]"

text \<open>The calls of a complete run of \<open>EncryptToJSON\<close> with \<open>PrettyJSON\<close>, in order.\<close>

definition stages :: "('b, 'r) deps \<Rightarrow> string \<Rightarrow> string \<Rightarrow> 8 word list \<Rightarrow> event list" where
  "stages L transitPath keyName dataKey =
     [EvLoadPlainFile, EvRandRead, wrap_request L transitPath keyName dataKey,
      EvEncryptTree, EvEmit, EvIndent]"


section \<open>A stand-in for the libraries\<close>

text \<open>
  Concrete libraries to run the definitions on. The Vault of the package's tests
  answers a write with the ciphertext \<open>vault:v1:\<close> followed by the plaintext it
  was sent; the parser refuses the empty text and keeps any other as its tree; the
  random source counts; the tree encryption and the serialisers leave their input as
  it is.
\<close>

definition mockVaultWrite :: "Client \<Rightarrow> string \<Rightarrow> (string \<times> iface) list \<Rightarrow> go_error + Secret option" where
  "mockVaultWrite client path payload =
     (case map_of payload ''plaintext'' of
        Some (IString p) \<Rightarrow>
          Inr (Some \<lparr>Data = [''ciphertext'' \<mapsto> IString (''vault:v1:'' @ p)], Auth = None\<rparr>)
      | _ \<Rightarrow> Inl (New ''404 page not found''))"

definition test_deps :: "(string, nat) deps" where
  "test_deps =
     \<lparr>LoadPlainFile = (\<lambda>s. if s = [] then Inl (New ''unexpected end of JSON input'') else Inr s),
      rand_Read = (\<lambda>n r. (Inr (replicate n (of_nat r)), r + 1)),
      EncodeToString = (\<lambda>bs. replicate (length bs) CHR ''A''),
      NewClient = (\<lambda>address. None),
      client_Address = ConfiguredAddress,
      Logical_Write = mockVaultWrite,
      sops_Version = ''3.9.0'',
      EncryptTree = (\<lambda>key tree r. (Inr tree, r + 1)),
      json_EmitEncryptedFile = (\<lambda>tree. Inr (Branches tree)),
      yaml_EmitEncryptedFile = (\<lambda>tree. Inr (Branches tree)),
      json_Indent = (\<lambda>src prefix indent. Inr src)\<rparr>"

text \<open>A Vault that answers every write with an empty body: a nil secret, a nil error.\<close>

definition empty_body_deps :: "(string, nat) deps" where
  "empty_body_deps = test_deps\<lparr>Logical_Write := (\<lambda>client path payload. Inr None)\<rparr>"

text \<open>A Vault that refuses every write.\<close>

definition failing_vault_deps :: "(string, nat) deps" where
  "failing_vault_deps =
     test_deps\<lparr>Logical_Write := (\<lambda>client path payload. Inl (New ''permission denied''))\<rparr>"

text \<open>
  An encoder that writes a document on one line, in YAML's flow style, so that what
  it returns shows every field of the document it was given.
\<close>

fun flow :: "yaml_node \<Rightarrow> string"
  and flow_fields :: "(string \<times> yaml_node) list \<Rightarrow> string"
  and flow_items :: "yaml_node list \<Rightarrow> string" where
  "flow (Scalar s) = s"
| "flow (Mapping kvs) = ''{'' @ flow_fields kvs @ ''}''"
| "flow (Sequence items) = ''['' @ flow_items items @ '']''"
| "flow_fields [] = []"
| "flow_fields ((k, v) # kvs) =
     k @ '': '' @ flow v @ (if kvs = [] then [] else '', '' @ flow_fields kvs)"
| "flow_items [] = []"
| "flow_items (v # items) = flow v @ (if items = [] then [] else '', '' @ flow_items items)"

definition test_encoder :: yaml_Encoder where
  "test_encoder = \<lparr>enc_Encode = (\<lambda>indent doc. Inr (flow doc)), enc_Close = (\<lambda>indent doc. Inr [])\<rparr>"

definition test_client :: Client where
  "test_client = \<lparr>ConfiguredAddress = ''http://127.0.0.1:8200'', Token = ''test-token''\<rparr>"

definition test_world :: "nat world" where
  "test_world = \<lparr>rng = 0, clock = 0, trace = []\<rparr>"

definition no_scope :: EncryptOpts where
  "no_scope = \<lparr>UnencryptedSuffix = [], EncryptedSuffix = [], UnencryptedRegex = [],
                EncryptedRegex = [], PrettyJSON = False\<rparr>"

definition two_scopes :: EncryptOpts where
  "two_scopes = no_scope\<lparr>UnencryptedSuffix := ''_plain'', EncryptedSuffix := ''_secret''\<rparr>"


text \<open>A provider configuration, and a plan that sets two scope attributes.\<close>

definition test_provider :: sopsProviderData where
  "test_provider = \<lparr>vaultAddress = ''http://127.0.0.1:8200'', vaultToken = ''test-token'',
                     vaultTransitEngine = ''transit''\<rparr>"

definition conflicting_plan :: encryptedJSONModel where
  "conflicting_plan =
     \<lparr>ID = StringUnknown, Content = StringValue ''{}'', VaultKeyName = StringValue ''k'',
      attr_UnencryptedSuffix = StringValue ''_plain'', attr_EncryptedSuffix = StringValue ''_secret'',
      attr_UnencryptedRegex = StringNull, attr_EncryptedRegex = StringNull,
      Ciphertext = StringUnknown, Pretty = BoolValue False\<rparr>"


section \<open>The renderer: rules and key URI\<close>

lemma len_simps: "len nil = 0" "len (Slice xs) = length xs"
  by (simp_all add: len_def)

text \<open>
  The loop invariant: after the loop has run over the entries from index \<open>n\<close> on,
  the array holds the rules of these entries there and is unchanged elsewhere.
\<close>

lemma fill_rules_enumerate:
  "n + length xs \<le> length rules \<Longrightarrow>
   fill_rules uri (enumerate n xs) rules =
     take n rules @ map (\<lambda>re. \<lparr>PathRegex = re, HCVaultTransitURI = uri\<rparr>) xs
       @ drop (n + length xs) rules"
proof (induction xs arbitrary: n rules)
  case Nil
  then show ?case by simp
next
  case (Cons x xs)
  let ?v = "\<lparr>PathRegex = x, HCVaultTransitURI = uri\<rparr>"
  from Cons.prems have n: "n < length rules" by simp
  have "fill_rules uri (enumerate n (x # xs)) rules
        = fill_rules uri (enumerate (Suc n) xs) (rules[n := ?v])" by simp
  also have "\<dots> = take (Suc n) (rules[n := ?v])
                   @ map (\<lambda>re. \<lparr>PathRegex = re, HCVaultTransitURI = uri\<rparr>) xs
                   @ drop (Suc n + length xs) (rules[n := ?v])"
    using Cons.prems by (intro Cons.IH) simp
  also have "take (Suc n) (rules[n := ?v]) = take n rules @ [?v]"
    using n by (simp add: take_Suc_conv_app_nth)
  also have "drop (Suc n + length xs) (rules[n := ?v]) = drop (n + length (x # xs)) rules"
    by simp
  finally show ?case by simp
qed

lemma creation_rules_nonempty:
  "xs \<noteq> [] \<Longrightarrow>
   creation_rules uri (Slice xs) = map (\<lambda>re. \<lparr>PathRegex = re, HCVaultTransitURI = uri\<rparr>) xs"
  by (simp add: creation_rules_def len_simps fill_rules_enumerate)

lemma creation_rules_empty:
  "len s = 0 \<Longrightarrow> creation_rules uri s = [\<lparr>PathRegex = [], HCVaultTransitURI = uri\<rparr>]"
  by (simp add: creation_rules_def)

lemma creation_rules_uri:
  "r \<in> set (creation_rules uri s) \<Longrightarrow> HCVaultTransitURI r = uri"
proof (cases s)
  case nil
  then show "r \<in> set (creation_rules uri s) \<Longrightarrow> HCVaultTransitURI r = uri"
    by (simp add: creation_rules_def len_simps)
next
  case (Slice xs)
  then show "r \<in> set (creation_rules uri s) \<Longrightarrow> HCVaultTransitURI r = uri"
    by (cases "xs = []") (auto simp: creation_rules_nonempty creation_rules_empty len_simps)
qed

lemma TrimRight_decompose:
  "\<exists>n. s = TrimRight s [c] @ replicate n c"
proof -
  let ?P = "\<lambda>x. x \<in> set [c]"
  have "rev s = takeWhile ?P (rev s) @ dropWhile ?P (rev s)" by simp
  then have "s = rev (dropWhile ?P (rev s)) @ rev (takeWhile ?P (rev s))"
    by (metis rev_append rev_rev_ident)
  moreover have "\<forall>x \<in> set (rev (takeWhile ?P (rev s))). x = c"
    by (auto dest: set_takeWhileD)
  then have "rev (takeWhile ?P (rev s)) = replicate (length (rev (takeWhile ?P (rev s)))) c"
    by (metis replicate_length_same)
  ultimately show ?thesis unfolding TrimRight_def by metis
qed

lemma TrimRight_last:
  "TrimRight s [c] = [] \<or> last (TrimRight s [c]) \<noteq> c"
proof (cases "dropWhile (\<lambda>x. x \<in> set [c]) (rev s) = []")
  case True
  then show ?thesis by (simp add: TrimRight_def)
next
  case False
  then have "\<not> (hd (dropWhile (\<lambda>x. x \<in> set [c]) (rev s)) \<in> set [c])"
    by (rule hd_dropWhile)
  with False show ?thesis by (simp add: TrimRight_def last_rev)
qed

text \<open>
  All of \<open>GenerateSOPSConfig\<close> in one equation: its result is what the encoder
  makes of a document with one rule per regex, in order, each with the key URI and,
  unless the regex is empty, its \<open>path_regex\<close>; a nil or empty list counts as the
  single empty regex.
\<close>

lemma GenerateSOPSConfig_document:
  "GenerateSOPSConfig Y a t k rs =
     encode_document Y
       (Mapping [(''creation_rules'',
          Sequence (map (\<lambda>re. Mapping ((if re = [] then [] else [(''path_regex'', Scalar re)])
                                      @ [(''hc_vault_transit_uri'', Scalar (key_uri a t k))]))
                        (if len rs = 0 then [[]] else elems rs)))])"
proof (cases "len rs = 0")
  case True
  then show ?thesis
    by (simp add: GenerateSOPSConfig_def config_document_def marshal_config_def marshal_rule_def
        creation_rules_empty cong: if_cong)
next
  case False
  then obtain xs where rs: "rs = Slice xs" and xs: "xs \<noteq> []"
    by (cases rs) (auto simp: len_simps)
  then show ?thesis
    by (simp add: GenerateSOPSConfig_def config_document_def marshal_config_def marshal_rule_def
        creation_rules_nonempty len_simps comp_def cong: if_cong)
qed

text \<open>
  Claim C7. \<open>GenerateSOPSConfig\<close> returns the same for a nil and for an empty list
  of path regexes. What it returns then is the encoding of a document with exactly
  one creation rule, a mapping whose only field is \<open>hc_vault_transit_uri\<close> with the
  key URI: \<open>path_regex\<close> is absent. For a non-empty list it returns the encoding
  of a document with one rule per regex, in the order given.
\<close>

theorem GenerateSOPSConfig_rules:
  "GenerateSOPSConfig Y a t k nil = GenerateSOPSConfig Y a t k (Slice [])
   \<and> GenerateSOPSConfig Y a t k (Slice []) =
       encode_document Y
         (Mapping [(''creation_rules'',
                    Sequence [Mapping [(''hc_vault_transit_uri'', Scalar (key_uri a t k))]])])
   \<and> (res \<noteq> [] \<longrightarrow>
        GenerateSOPSConfig Y a t k (Slice res) =
          encode_document Y
            (Mapping [(''creation_rules'',
               Sequence (map (\<lambda>re. Mapping ((if re = [] then [] else [(''path_regex'', Scalar re)])
                                           @ [(''hc_vault_transit_uri'', Scalar (key_uri a t k))]))
                             res))]))"
  by (simp add: GenerateSOPSConfig_document len_simps)

theorem GenerateSOPSConfig_rules_witness:
  "GenerateSOPSConfig test_encoder ''http://127.0.0.1:8200/'' ''transit'' ''my-key'' nil =
     (''{creation_rules: [{hc_vault_transit_uri: http://127.0.0.1:8200/v1/transit/keys/my-key}]}'', None)
   \<and> GenerateSOPSConfig test_encoder ''http://127.0.0.1:8200/'' ''transit'' ''my-key'' (Slice []) =
     (''{creation_rules: [{hc_vault_transit_uri: http://127.0.0.1:8200/v1/transit/keys/my-key}]}'', None)
   \<and> GenerateSOPSConfig test_encoder ''http://127.0.0.1:8200/'' ''transit'' ''my-key''
        (Slice [''^secrets/'', ''^config/'']) =
     (''{creation_rules: [{path_regex: ^secrets/, hc_vault_transit_uri: http://127.0.0.1:8200/v1/transit/keys/my-key}, {path_regex: ^config/, hc_vault_transit_uri: http://127.0.0.1:8200/v1/transit/keys/my-key}]}'', None)"
  using GenerateSOPSConfig_rules
    [of test_encoder "''http://127.0.0.1:8200/''" "''transit''" "''my-key''" "[''^secrets/'', ''^config/'']"]
  by (simp add: encode_document_def test_encoder_def key_uri_def TrimRight_def)

text \<open>
  Claim C8. What \<open>GenerateSOPSConfig\<close> returns is the encoding of a document in
  which every creation rule has, as its key URI, the base URL without its trailing
  slashes, followed by \<open>/v1/\<close>, the engine path, \<open>/keys/\<close> and the key name.
  What was trimmed is slashes only, and what is left does not end in a slash, so the
  slash before \<open>v1\<close> is never doubled.
\<close>

theorem key_uri_trims_trailing_slashes:
  "GenerateSOPSConfig Y a t k rs =
     encode_document Y
       (Mapping [(''creation_rules'',
          Sequence (map (\<lambda>re. Mapping ((if re = [] then [] else [(''path_regex'', Scalar re)])
                          @ [(''hc_vault_transit_uri'',
                              Scalar (TrimRight a ''/'' @ ''/v1/'' @ t @ ''/keys/'' @ k))]))
                        (if len rs = 0 then [[]] else elems rs)))])
   \<and> (\<exists>n. a = TrimRight a ''/'' @ replicate n CHR ''/'')
   \<and> (TrimRight a ''/'' = [] \<or> last (TrimRight a ''/'') \<noteq> CHR ''/'')"
proof (intro conjI)
  show "GenerateSOPSConfig Y a t k rs =
     encode_document Y
       (Mapping [(''creation_rules'',
          Sequence (map (\<lambda>re. Mapping ((if re = [] then [] else [(''path_regex'', Scalar re)])
                          @ [(''hc_vault_transit_uri'',
                              Scalar (TrimRight a ''/'' @ ''/v1/'' @ t @ ''/keys/'' @ k))]))
                        (if len rs = 0 then [[]] else elems rs)))])"
    using GenerateSOPSConfig_document[of Y a t k rs] by (simp only: key_uri_def)
next
  show "\<exists>n. a = TrimRight a ''/'' @ replicate n CHR ''/''" by (rule TrimRight_decompose)
next
  show "TrimRight a ''/'' = [] \<or> last (TrimRight a ''/'') \<noteq> CHR ''/''" by (rule TrimRight_last)
qed

theorem key_uri_trims_trailing_slashes_witness:
  "GenerateSOPSConfig test_encoder ''http://vault:8200//'' ''transit'' ''app-key'' (Slice [''a'', ''b'']) =
     (''{creation_rules: [{path_regex: a, hc_vault_transit_uri: http://vault:8200/v1/transit/keys/app-key}, {path_regex: b, hc_vault_transit_uri: http://vault:8200/v1/transit/keys/app-key}]}'', None)
   \<and> TrimRight ''http://vault:8200//'' ''/'' = ''http://vault:8200''"
  using key_uri_trims_trailing_slashes
    [of test_encoder "''http://vault:8200//''" "''transit''" "''app-key''" "Slice [''a'', ''b'']"]
  by (simp add: encode_document_def test_encoder_def TrimRight_def len_simps)

section \<open>The encryption pipeline\<close>


lemma record_call_simps [simp]:
  "rng (record_call ev w) = rng w"
  "clock (record_call ev w) = clock w"
  "trace (record_call ev w) = trace w @ [ev]"
  by (simp_all add: record_call_def)

lemma wrapDataKey_world:
  "snd (wrapDataKey L c tp kn key w) = record_call (wrap_request L tp kn key) w"
  by (simp add: wrapDataKey_def wrap_request_def Let_def
      split: sum.splits option.splits iface.splits)

lemma wrapDataKey_result:
  "fst (wrapDataKey L c tp kn key w) =
     (case Logical_Write L c (tp @ ''/encrypt/'' @ kn) [(''plaintext'', IString (EncodeToString L key))] of
        Inl e \<Rightarrow> Returned ([], Some (Errorf (''vault transit encrypt ('' @ tp @ ''/encrypt/'' @ kn @ '')'') e))
      | Inr None \<Rightarrow> Panicked ''nil pointer dereference''
      | Inr (Some s) \<Rightarrow>
          (case Data s ''ciphertext'' of
             Some (IString ct) \<Rightarrow> Returned (ct, None)
           | _ \<Rightarrow> Returned ([], Some (New ''unexpected vault response: ciphertext not a string''))))"
  by (simp add: wrapDataKey_def Let_def
      split: sum.splits option.splits iface.splits)

lemma wrapDataKey_eq:
  "wrapDataKey L c tp kn key w = (fst (wrapDataKey L c tp kn key w), record_call (wrap_request L tp kn key) w)"
  by (metis prod.collapse wrapDataKey_world)

text \<open>\<open>encryptDocument\<close>, stage by stage.\<close>

lemma encryptDocument_parse_error:
  "LoadPlainFile L js = Inl e \<Longrightarrow>
   encryptDocument L c tp kn js opts emit w =
     (Returned ([], Some (Errorf ''parsing content as JSON'' e)), record_call EvLoadPlainFile w)"
  by (simp add: encryptDocument_def)

lemma encryptDocument_keygen_error:
  "LoadPlainFile L js = Inr b \<Longrightarrow> rand_Read L 32 (rng w) = (Inl e, r) \<Longrightarrow>
   encryptDocument L c tp kn js opts emit w =
     (Returned ([], Some (Errorf ''generating data key'' e)),
      record_call EvRandRead (record_call EvLoadPlainFile w\<lparr>rng := r\<rparr>))"
  by (simp add: encryptDocument_def generateDataKey_def)

lemma encryptDocument_after_keygen:
  "LoadPlainFile L js = Inr b \<Longrightarrow> rand_Read L 32 (rng w) = (Inr bs, r) \<Longrightarrow>
   encryptDocument L c tp kn js opts emit w =
     (let w2 = record_call EvRandRead (record_call EvLoadPlainFile w\<lparr>rng := r\<rparr>);
          w3 = record_call (wrap_request L tp kn (fill 32 bs)) w2 in
      case fst (wrapDataKey L c tp kn (fill 32 bs) w2) of
        Panicked p \<Rightarrow> (Panicked p, w3)
      | Returned (x, Some err) \<Rightarrow> (Returned ([], Some err), w3)
      | Returned (encryptedKey, None) \<Rightarrow>
          (let w4 = record_call EvEncryptTree w3 in
           case EncryptTree L (fill 32 bs) (document_tree L c tp kn opts b encryptedKey (clock w)) r of
             (Inl err, r') \<Rightarrow> (Returned ([], Some (Errorf ''encrypting tree'' err)), w4\<lparr>rng := r'\<rparr>)
           | (Inr tree', r') \<Rightarrow>
               (case emit tree' of
                  Inl err \<Rightarrow> (Returned ([], Some (Errorf ''emitting encrypted document'' err)),
                              record_call EvEmit (w4\<lparr>rng := r'\<rparr>))
                | Inr out \<Rightarrow> (Returned (out, None), record_call EvEmit (w4\<lparr>rng := r'\<rparr>)))))"
  apply (simp add: encryptDocument_def generateDataKey_def Let_def)
  apply (subst wrapDataKey_eq)
  apply (simp add: Let_def split: outcome.splits prod.splits option.splits sum.splits)
  done


lemma calls_during_append [simp]:
  "trace w' = trace w @ evs \<Longrightarrow> calls_during w w' = evs"
  by (simp add: calls_during_def)

lemma wrap_calls_simps [simp]:
  "wrap_calls [] = 0"
  "wrap_calls (EvWrite p q # evs) = Suc (wrap_calls evs)"
  "wrap_calls (wrap_request L tp kn key # evs) = Suc (wrap_calls evs)"
  "wrap_calls (EvLoadPlainFile # evs) = wrap_calls evs"
  "wrap_calls (EvRandRead # evs) = wrap_calls evs"
  "wrap_calls (EvEncryptTree # evs) = wrap_calls evs"
  "wrap_calls (EvEmit # evs) = wrap_calls evs"
  "wrap_calls (EvIndent # evs) = wrap_calls evs"
  "wrap_calls (EvNewClient a # evs) = wrap_calls evs"
  by (simp_all add: wrap_calls_def wrap_request_def)

lemma encryptDocument_trace:
  "\<exists>n key. trace (snd (encryptDocument L c tp kn js opts emit w)) = trace w @ take n (stages L tp kn key)"
proof (cases "LoadPlainFile L js")
  case (Inl e)
  then have "trace (snd (encryptDocument L c tp kn js opts emit w)) = trace w @ take 1 (stages L tp kn [])"
    by (simp add: encryptDocument_parse_error stages_def)
  then show ?thesis by blast
next
  case (Inr b)
  obtain res r where rr: "rand_Read L 32 (rng w) = (res, r)" by (cases "rand_Read L 32 (rng w)")
  show ?thesis
  proof (cases res)
    case (Inl e)
    with Inr rr have "trace (snd (encryptDocument L c tp kn js opts emit w)) = trace w @ take 2 (stages L tp kn [])"
      by (simp add: encryptDocument_keygen_error stages_def)
    then show ?thesis by blast
  next
    case (Inr bs)
    let ?k = "fill 32 bs"
    from \<open>LoadPlainFile L js = Inr b\<close> rr Inr
    have "trace (snd (encryptDocument L c tp kn js opts emit w)) = trace w @ take 3 (stages L tp kn ?k)
        \<or> trace (snd (encryptDocument L c tp kn js opts emit w)) = trace w @ take 4 (stages L tp kn ?k)
        \<or> trace (snd (encryptDocument L c tp kn js opts emit w)) = trace w @ take 5 (stages L tp kn ?k)"
      by (simp add: encryptDocument_after_keygen stages_def Let_def
          split: outcome.splits prod.splits option.splits sum.splits)
    then show ?thesis by blast
  qed
qed

lemma encryptDocument_wrap_calls:
  "wrap_calls (calls_during w (snd (encryptDocument L c tp kn js opts emit w))) =
     (if \<not> isl (LoadPlainFile L js) \<and> \<not> isl (fst (rand_Read L 32 (rng w))) then 1 else 0)"
proof (cases "LoadPlainFile L js")
  case (Inl e)
  then show ?thesis by (simp add: encryptDocument_parse_error)
next
  case (Inr b)
  obtain res r where rr: "rand_Read L 32 (rng w) = (res, r)" by (cases "rand_Read L 32 (rng w)")
  show ?thesis
  proof (cases res)
    case (Inl e)
    with Inr rr show ?thesis by (simp add: encryptDocument_keygen_error)
  next
    case (Inr bs)
    with \<open>LoadPlainFile L js = Inr b\<close> rr show ?thesis
      by (simp add: encryptDocument_after_keygen Let_def
          split: outcome.splits prod.splits option.splits sum.splits)
  qed
qed

lemma encryptDocument_error_empty:
  "fst (encryptDocument L c tp kn js opts emit w) = Returned (x, Some e) \<Longrightarrow> x = []"
  by (auto simp: encryptDocument_def generateDataKey_def Let_def
      split: outcome.splits prod.splits option.splits sum.splits)

lemma EncryptToYAML_eq:
  "EncryptToYAML L c tp kn js opts w = encryptDocument L c tp kn js opts (yaml_EmitEncryptedFile L) w"
proof -
  obtain res w1 where ed: "encryptDocument L c tp kn js opts (yaml_EmitEncryptedFile L) w = (res, w1)"
    by (cases "encryptDocument L c tp kn js opts (yaml_EmitEncryptedFile L) w")
  show ?thesis
  proof (cases res)
    case (Panicked p)
    with ed show ?thesis by (simp add: EncryptToYAML_def)
  next
    case (Returned pr)
    obtain x e where pr: "pr = (x, e)" by (cases pr)
    show ?thesis
    proof (cases e)
      case None
      with ed Returned pr show ?thesis by (simp add: EncryptToYAML_def)
    next
      case (Some err)
      with ed Returned pr have "x = []"
        using encryptDocument_error_empty[of L c tp kn js opts "yaml_EmitEncryptedFile L" w x err] by simp
      with ed Returned pr Some show ?thesis by (simp add: EncryptToYAML_def)
    qed
  qed
qed

lemma EncryptToJSON_eq:
  "EncryptToJSON L c tp kn js opts w =
     (case encryptDocument L c tp kn js opts (json_EmitEncryptedFile L) w of
        (Returned (out, None), w1) \<Rightarrow>
          (if PrettyJSON opts then
             (case json_Indent L out [] ''  '' of
                Inl err \<Rightarrow> (Returned ([], Some (Errorf ''pretty-printing JSON'' err)), record_call EvIndent w1)
              | Inr buf \<Rightarrow> (Returned (buf, None), record_call EvIndent w1))
           else (Returned (out, None), w1))
      | other \<Rightarrow> other)"
proof -
  obtain res w1 where ed: "encryptDocument L c tp kn js opts (json_EmitEncryptedFile L) w = (res, w1)"
    by (cases "encryptDocument L c tp kn js opts (json_EmitEncryptedFile L) w")
  show ?thesis
  proof (cases res)
    case (Panicked p)
    with ed show ?thesis by (simp add: EncryptToJSON_def)
  next
    case (Returned pr)
    obtain x e where pr: "pr = (x, e)" by (cases pr)
    show ?thesis
    proof (cases e)
      case None
      with ed Returned pr show ?thesis by (simp add: EncryptToJSON_def)
    next
      case (Some err)
      with ed Returned pr have "x = []"
        using encryptDocument_error_empty[of L c tp kn js opts "json_EmitEncryptedFile L" w x err] by simp
      with ed Returned pr Some show ?thesis by (simp add: EncryptToJSON_def)
    qed
  qed
qed

text \<open>
  Claim C10. \<open>EncryptToYAML\<close> does not read \<open>PrettyJSON\<close>: two option values
  with the same four scope fields give the same result and the same world after the
  call (the same requests to Vault, the same state of the random source), whatever
  the libraries do.
\<close>

theorem EncryptToYAML_ignores_PrettyJSON:
  "UnencryptedSuffix o1 = UnencryptedSuffix o2 \<and> EncryptedSuffix o1 = EncryptedSuffix o2 \<and>
   UnencryptedRegex o1 = UnencryptedRegex o2 \<and> EncryptedRegex o1 = EncryptedRegex o2 \<longrightarrow>
   EncryptToYAML L c tp kn js o1 w = EncryptToYAML L c tp kn js o2 w"
proof
  assume same: "UnencryptedSuffix o1 = UnencryptedSuffix o2 \<and> EncryptedSuffix o1 = EncryptedSuffix o2 \<and>
    UnencryptedRegex o1 = UnencryptedRegex o2 \<and> EncryptedRegex o1 = EncryptedRegex o2"
  have tree: "\<And>b ct now. document_tree L c tp kn o1 b ct now = document_tree L c tp kn o2 b ct now"
    using same by (simp add: document_tree_def)
  show "EncryptToYAML L c tp kn js o1 w = EncryptToYAML L c tp kn js o2 w"
    unfolding EncryptToYAML_def encryptDocument_def tree ..
qed

theorem EncryptToYAML_ignores_PrettyJSON_witness:
  "EncryptToYAML test_deps test_client ''transit'' ''k'' ''{}'' (no_scope\<lparr>PrettyJSON := True\<rparr>) test_world
   = EncryptToYAML test_deps test_client ''transit'' ''k'' ''{}'' no_scope test_world"
  using EncryptToYAML_ignores_PrettyJSON
    [of "no_scope\<lparr>PrettyJSON := True\<rparr>" no_scope test_deps test_client "''transit''" "''k''" "''{}''" test_world]
  by (simp add: no_scope_def)

text \<open>
  Claim C9, at the input where the code departs from it. Vault answers the key-wrap
  request with an empty body, so \<open>Write\<close> returns a nil secret and a nil error;
  \<open>wrapDataKey\<close> reads \<open>secret.Data\<close> and panics, and so do both entry points:
  no key-wrap error is returned.
\<close>

theorem wrapDataKey_nil_secret_panics:
  "fst (wrapDataKey empty_body_deps test_client ''transit'' ''k'' (replicate 32 0) test_world)
     = Panicked ''nil pointer dereference''
   \<and> fst (EncryptToJSON empty_body_deps test_client ''transit'' ''k'' ''{}'' no_scope test_world)
     = Panicked ''nil pointer dereference''
   \<and> fst (EncryptToYAML empty_body_deps test_client ''transit'' ''k'' ''{}'' no_scope test_world)
     = Panicked ''nil pointer dereference''"
  by (simp add: wrapDataKey_def EncryptToJSON_def EncryptToYAML_def encryptDocument_def
      generateDataKey_def empty_body_deps_def test_deps_def test_world_def Let_def)

text \<open>
  The other answers are handled: an error of \<open>Write\<close> comes back wrapped, with
  its cause kept; a secret with no string under \<open>ciphertext\<close> gives an error.
  \<open>AppRoleLogin\<close> answers a nil secret with an error.
\<close>

lemma wrapDataKey_surfaces_cause:
  "Logical_Write L c (tp @ ''/encrypt/'' @ kn) [(''plaintext'', IString (EncodeToString L key))] = Inl e \<Longrightarrow>
   \<exists>err. fst (wrapDataKey L c tp kn key w) = Returned ([], Some err) \<and> root_cause err = root_cause e"
  by (simp add: wrapDataKey_result)

lemma wrapDataKey_unexpected_shape:
  "Logical_Write L c (tp @ ''/encrypt/'' @ kn) [(''plaintext'', IString (EncodeToString L key))] = Inr (Some s) \<Longrightarrow>
   \<forall>ct. Data s ''ciphertext'' \<noteq> Some (IString ct) \<Longrightarrow>
   fst (wrapDataKey L c tp kn key w) =
     Returned ([], Some (New ''unexpected vault response: ciphertext not a string''))"
  by (simp add: wrapDataKey_result split: option.splits iface.splits)

lemma AppRoleLogin_nil_secret:
  "NewClient L address = None \<Longrightarrow>
   Logical_Write L \<lparr>ConfiguredAddress = address, Token = []\<rparr> (''auth/'' @ approlePath @ ''/login'')
     [(''role_id'', IString roleID), (''secret_id'', IString secretID)] = Inr None \<Longrightarrow>
   fst (AppRoleLogin L address approlePath roleID secretID w) =
     Returned ([], Some (New ''approle login: empty auth response from Vault''))"
  by (simp add: AppRoleLogin_def NewVaultClient_def Let_def)

lemma EncryptToJSON_result:
  "fst (EncryptToJSON L c tp kn js opts w) =
     (case fst (encryptDocument L c tp kn js opts (json_EmitEncryptedFile L) w) of
        Returned (out, None) \<Rightarrow>
          (if PrettyJSON opts then
             (case json_Indent L out [] ''  '' of
                Inl err \<Rightarrow> Returned ([], Some (Errorf ''pretty-printing JSON'' err))
              | Inr buf \<Rightarrow> Returned (buf, None))
           else Returned (out, None))
      | other \<Rightarrow> other)"
  by (simp add: EncryptToJSON_eq split: prod.splits outcome.splits option.splits sum.splits)

lemma EncryptToYAML_result:
  "fst (EncryptToYAML L c tp kn js opts w) =
     fst (encryptDocument L c tp kn js opts (yaml_EmitEncryptedFile L) w)"
  by (simp add: EncryptToYAML_eq)

lemma ed_parse:
  "LoadPlainFile L js = Inl e \<Longrightarrow>
   fst (encryptDocument L c tp kn js opts emit w) = Returned ([], Some (Errorf ''parsing content as JSON'' e))"
  by (simp add: encryptDocument_parse_error)

lemma ed_keygen:
  "LoadPlainFile L js = Inr b \<Longrightarrow> rand_Read L 32 (rng w) = (Inl e, r) \<Longrightarrow>
   fst (encryptDocument L c tp kn js opts emit w) = Returned ([], Some (Errorf ''generating data key'' e))"
  by (simp add: encryptDocument_keygen_error)

lemma ed_wrap:
  "LoadPlainFile L js = Inr b \<Longrightarrow> rand_Read L 32 (rng w) = (Inr bs, r) \<Longrightarrow>
   Logical_Write L c (tp @ ''/encrypt/'' @ kn) [(''plaintext'', IString (EncodeToString L (fill 32 bs)))] = Inl e \<Longrightarrow>
   fst (encryptDocument L c tp kn js opts emit w) =
     Returned ([], Some (Errorf (''vault transit encrypt ('' @ tp @ ''/encrypt/'' @ kn @ '')'') e))"
  by (simp add: encryptDocument_after_keygen wrapDataKey_result Let_def)

lemma ed_nil:
  "LoadPlainFile L js = Inr b \<Longrightarrow> rand_Read L 32 (rng w) = (Inr bs, r) \<Longrightarrow>
   Logical_Write L c (tp @ ''/encrypt/'' @ kn) [(''plaintext'', IString (EncodeToString L (fill 32 bs)))] = Inr None \<Longrightarrow>
   fst (encryptDocument L c tp kn js opts emit w) = Panicked ''nil pointer dereference''"
  by (simp add: encryptDocument_after_keygen wrapDataKey_result Let_def)

lemma ed_shape:
  "LoadPlainFile L js = Inr b \<Longrightarrow> rand_Read L 32 (rng w) = (Inr bs, r) \<Longrightarrow>
   Logical_Write L c (tp @ ''/encrypt/'' @ kn) [(''plaintext'', IString (EncodeToString L (fill 32 bs)))] = Inr (Some s) \<Longrightarrow>
   \<forall>ct. Data s ''ciphertext'' \<noteq> Some (IString ct) \<Longrightarrow>
   fst (encryptDocument L c tp kn js opts emit w) =
     Returned ([], Some (New ''unexpected vault response: ciphertext not a string''))"
  by (simp add: encryptDocument_after_keygen wrapDataKey_result Let_def split: option.splits iface.splits)

lemma ed_tree:
  "LoadPlainFile L js = Inr b \<Longrightarrow> rand_Read L 32 (rng w) = (Inr bs, r) \<Longrightarrow>
   Logical_Write L c (tp @ ''/encrypt/'' @ kn) [(''plaintext'', IString (EncodeToString L (fill 32 bs)))] = Inr (Some s) \<Longrightarrow>
   Data s ''ciphertext'' = Some (IString ct) \<Longrightarrow>
   EncryptTree L (fill 32 bs) (document_tree L c tp kn opts b ct (clock w)) r = (Inl e, r') \<Longrightarrow>
   fst (encryptDocument L c tp kn js opts emit w) = Returned ([], Some (Errorf ''encrypting tree'' e))"
  by (simp add: encryptDocument_after_keygen wrapDataKey_result Let_def)

lemma ed_emit:
  "LoadPlainFile L js = Inr b \<Longrightarrow> rand_Read L 32 (rng w) = (Inr bs, r) \<Longrightarrow>
   Logical_Write L c (tp @ ''/encrypt/'' @ kn) [(''plaintext'', IString (EncodeToString L (fill 32 bs)))] = Inr (Some s) \<Longrightarrow>
   Data s ''ciphertext'' = Some (IString ct) \<Longrightarrow>
   EncryptTree L (fill 32 bs) (document_tree L c tp kn opts b ct (clock w)) r = (Inr tree', r') \<Longrightarrow>
   fst (encryptDocument L c tp kn js opts emit w) =
     (case emit tree' of
        Inl e \<Rightarrow> Returned ([], Some (Errorf ''emitting encrypted document'' e))
      | Inr out \<Rightarrow> Returned (out, None))"
  by (simp add: encryptDocument_after_keygen wrapDataKey_result Let_def split: sum.splits)

text \<open>
  The failure points that are handled. Whenever \<open>EncryptToJSON\<close> or
  \<open>EncryptToYAML\<close> returns a non-nil error, the string it returns is empty. A
  failure of the parser, of the random source, of \<open>Write\<close> (an error, or a secret
  with no string ciphertext), of the tree encryption, of the serialiser or of the
  indenter gives a non-nil error that wraps the failure's own; when every step
  succeeds, the result is the serialiser's output (indented when \<open>PrettyJSON\<close> is
  set) with a nil error.
\<close>

lemma Encrypt_all_or_nothing:
  "(\<forall>out err. fst (EncryptToJSON L c tp kn js opts w) = Returned (out, Some err) \<longrightarrow> out = [])
 \<and> (\<forall>out err. fst (EncryptToYAML L c tp kn js opts w) = Returned (out, Some err) \<longrightarrow> out = [])
 \<and> (\<forall>e. LoadPlainFile L js = Inl e \<longrightarrow>
        fst (EncryptToJSON L c tp kn js opts w) = Returned ([], Some (Errorf ''parsing content as JSON'' e))
      \<and> fst (EncryptToYAML L c tp kn js opts w) = Returned ([], Some (Errorf ''parsing content as JSON'' e)))
 \<and> (\<forall>b. LoadPlainFile L js = Inr b \<longrightarrow>
      (\<forall>e r. rand_Read L 32 (rng w) = (Inl e, r) \<longrightarrow>
          fst (EncryptToJSON L c tp kn js opts w) = Returned ([], Some (Errorf ''generating data key'' e))
        \<and> fst (EncryptToYAML L c tp kn js opts w) = Returned ([], Some (Errorf ''generating data key'' e)))
    \<and> (\<forall>bs r. rand_Read L 32 (rng w) = (Inr bs, r) \<longrightarrow>
        (\<forall>e. Logical_Write L c (tp @ ''/encrypt/'' @ kn)
                [(''plaintext'', IString (EncodeToString L (fill 32 bs)))] = Inl e \<longrightarrow>
            fst (EncryptToJSON L c tp kn js opts w) =
              Returned ([], Some (Errorf (''vault transit encrypt ('' @ tp @ ''/encrypt/'' @ kn @ '')'') e))
          \<and> fst (EncryptToYAML L c tp kn js opts w) =
              Returned ([], Some (Errorf (''vault transit encrypt ('' @ tp @ ''/encrypt/'' @ kn @ '')'') e)))
      \<and> (\<forall>s. Logical_Write L c (tp @ ''/encrypt/'' @ kn)
                [(''plaintext'', IString (EncodeToString L (fill 32 bs)))] = Inr (Some s) \<longrightarrow>
          ((\<forall>ct. Data s ''ciphertext'' \<noteq> Some (IString ct)) \<longrightarrow>
              fst (EncryptToJSON L c tp kn js opts w) =
                Returned ([], Some (New ''unexpected vault response: ciphertext not a string''))
            \<and> fst (EncryptToYAML L c tp kn js opts w) =
                Returned ([], Some (New ''unexpected vault response: ciphertext not a string'')))
        \<and> (\<forall>ct. Data s ''ciphertext'' = Some (IString ct) \<longrightarrow>
            (\<forall>e r'. EncryptTree L (fill 32 bs) (document_tree L c tp kn opts b ct (clock w)) r = (Inl e, r') \<longrightarrow>
                fst (EncryptToJSON L c tp kn js opts w) = Returned ([], Some (Errorf ''encrypting tree'' e))
              \<and> fst (EncryptToYAML L c tp kn js opts w) = Returned ([], Some (Errorf ''encrypting tree'' e)))
          \<and> (\<forall>tree' r'. EncryptTree L (fill 32 bs) (document_tree L c tp kn opts b ct (clock w)) r = (Inr tree', r') \<longrightarrow>
              (\<forall>e. yaml_EmitEncryptedFile L tree' = Inl e \<longrightarrow>
                  fst (EncryptToYAML L c tp kn js opts w) =
                    Returned ([], Some (Errorf ''emitting encrypted document'' e)))
            \<and> (\<forall>out. yaml_EmitEncryptedFile L tree' = Inr out \<longrightarrow>
                  fst (EncryptToYAML L c tp kn js opts w) = Returned (out, None))
            \<and> (\<forall>e. json_EmitEncryptedFile L tree' = Inl e \<longrightarrow>
                  fst (EncryptToJSON L c tp kn js opts w) =
                    Returned ([], Some (Errorf ''emitting encrypted document'' e)))
            \<and> (\<forall>out. json_EmitEncryptedFile L tree' = Inr out \<longrightarrow>
                  (if PrettyJSON opts
                   then (\<forall>e. json_Indent L out [] ''  '' = Inl e \<longrightarrow>
                            fst (EncryptToJSON L c tp kn js opts w) =
                              Returned ([], Some (Errorf ''pretty-printing JSON'' e)))
                      \<and> (\<forall>buf. json_Indent L out [] ''  '' = Inr buf \<longrightarrow>
                            fst (EncryptToJSON L c tp kn js opts w) = Returned (buf, None))
                   else fst (EncryptToJSON L c tp kn js opts w) = Returned (out, None))))))))"
proof (intro conjI allI impI)
  fix out err
  assume "fst (EncryptToJSON L c tp kn js opts w) = Returned (out, Some err)"
  then show "out = []"
    by (auto simp: EncryptToJSON_result split: outcome.splits option.splits sum.splits if_splits
             dest: encryptDocument_error_empty)
next
  fix out err
  assume "fst (EncryptToYAML L c tp kn js opts w) = Returned (out, Some err)"
  then show "out = []"
    by (auto simp: EncryptToYAML_result dest: encryptDocument_error_empty)
qed (simp_all add: EncryptToJSON_result EncryptToYAML_result ed_parse ed_keygen ed_wrap ed_shape
      ed_tree ed_emit)

lemma Encrypt_all_or_nothing_example:
  "fst (EncryptToJSON test_deps test_client ''transit'' ''k'' [] no_scope test_world) =
     Returned ([], Some (Errorf ''parsing content as JSON'' (New ''unexpected end of JSON input'')))
   \<and> fst (EncryptToYAML failing_vault_deps test_client ''transit'' ''k'' ''{}'' no_scope test_world) =
     Returned ([], Some (Errorf ''vault transit encrypt (transit/encrypt/k)'' (New ''permission denied'')))"
proof
  have parse: "LoadPlainFile test_deps [] = Inl (New ''unexpected end of JSON input'')"
    by (simp add: test_deps_def)
  have "\<forall>e. LoadPlainFile test_deps [] = Inl e \<longrightarrow>
        fst (EncryptToJSON test_deps test_client ''transit'' ''k'' [] no_scope test_world) =
          Returned ([], Some (Errorf ''parsing content as JSON'' e))
      \<and> fst (EncryptToYAML test_deps test_client ''transit'' ''k'' [] no_scope test_world) =
          Returned ([], Some (Errorf ''parsing content as JSON'' e))"
    using Encrypt_all_or_nothing
      [of test_deps test_client "''transit''" "''k''" "[]" no_scope test_world]
    by (elim conjE)
  with parse show "fst (EncryptToJSON test_deps test_client ''transit'' ''k'' [] no_scope test_world) =
     Returned ([], Some (Errorf ''parsing content as JSON'' (New ''unexpected end of JSON input'')))"
    by blast
next
  let ?L = failing_vault_deps
  have h1: "LoadPlainFile ?L ''{}'' = Inr ''{}''"
    by (simp add: failing_vault_deps_def test_deps_def)
  have h2: "rand_Read ?L 32 (rng test_world) = (Inr (replicate 32 0), 1)"
    by (simp add: failing_vault_deps_def test_deps_def test_world_def)
  have h3: "Logical_Write ?L test_client (''transit'' @ ''/encrypt/'' @ ''k'')
              [(''plaintext'', IString (EncodeToString ?L (fill 32 (replicate 32 0))))]
            = Inl (New ''permission denied'')"
    by (simp add: failing_vault_deps_def)
  have "\<forall>b. LoadPlainFile ?L ''{}'' = Inr b \<longrightarrow>
          (\<forall>bs r. rand_Read ?L 32 (rng test_world) = (Inr bs, r) \<longrightarrow>
            (\<forall>e. Logical_Write ?L test_client (''transit'' @ ''/encrypt/'' @ ''k'')
                    [(''plaintext'', IString (EncodeToString ?L (fill 32 bs)))] = Inl e \<longrightarrow>
               fst (EncryptToYAML ?L test_client ''transit'' ''k'' ''{}'' no_scope test_world) =
                 Returned ([], Some (Errorf (''vault transit encrypt ('' @ ''transit'' @ ''/encrypt/'' @ ''k'' @ '')'') e))))"
    using Encrypt_all_or_nothing
      [of ?L test_client "''transit''" "''k''" "''{}''" no_scope test_world]
    by (elim conjE) blast
  with h1 h2 h3
  have "fst (EncryptToYAML ?L test_client ''transit'' ''k'' ''{}'' no_scope test_world) =
          Returned ([], Some (Errorf (''vault transit encrypt ('' @ ''transit'' @ ''/encrypt/'' @ ''k'' @ '')'')
                                (New ''permission denied'')))"
    by blast
  then show "fst (EncryptToYAML ?L test_client ''transit'' ''k'' ''{}'' no_scope test_world) =
     Returned ([], Some (Errorf ''vault transit encrypt (transit/encrypt/k)'' (New ''permission denied'')))"
    by simp
qed

text \<open>
  Claim C3, at the input where the code departs from it. The key wrap is one of the
  failure points, and when it fails by an empty answer (\<open>Write\<close> returns a nil
  secret and a nil error) neither entry point returns an error with an empty string,
  nor a document: the call panics in \<open>wrapDataKey\<close> and returns nothing.
\<close>

theorem Encrypt_nil_secret_returns_nothing:
  "LoadPlainFile L js = Inr b \<and> rand_Read L 32 (rng w) = (Inr bs, r) \<and>
   Logical_Write L c (tp @ ''/encrypt/'' @ kn)
     [(''plaintext'', IString (EncodeToString L (fill 32 bs)))] = Inr None \<longrightarrow>
     fst (EncryptToJSON L c tp kn js opts w) = Panicked ''nil pointer dereference''
   \<and> fst (EncryptToYAML L c tp kn js opts w) = Panicked ''nil pointer dereference''
   \<and> (\<forall>out err. fst (EncryptToJSON L c tp kn js opts w) \<noteq> Returned (out, err))
   \<and> (\<forall>out err. fst (EncryptToYAML L c tp kn js opts w) \<noteq> Returned (out, err))"
  by (simp add: EncryptToJSON_result EncryptToYAML_result ed_nil)

theorem Encrypt_nil_secret_returns_nothing_witness:
  "fst (EncryptToJSON empty_body_deps test_client ''transit'' ''k'' ''{}'' two_scopes test_world)
     = Panicked ''nil pointer dereference''
   \<and> (\<forall>out err. fst (EncryptToYAML empty_body_deps test_client ''transit'' ''k'' ''{}'' two_scopes test_world)
         \<noteq> Returned (out, err))"
proof -
  let ?L = empty_body_deps
  have h1: "LoadPlainFile ?L ''{}'' = Inr ''{}''"
    by (simp add: empty_body_deps_def test_deps_def)
  have h2: "rand_Read ?L 32 (rng test_world) = (Inr (replicate 32 0), 1)"
    by (simp add: empty_body_deps_def test_deps_def test_world_def)
  have h3: "Logical_Write ?L test_client (''transit'' @ ''/encrypt/'' @ ''k'')
              [(''plaintext'', IString (EncodeToString ?L (fill 32 (replicate 32 0))))] = Inr None"
    by (simp add: empty_body_deps_def)
  from Encrypt_nil_secret_returns_nothing
    [of ?L "''{}''" "''{}''" test_world "replicate 32 0" 1 test_client "''transit''" "''k''" two_scopes]
    h1 h2 h3
  show ?thesis by blast
qed


section \<open>The scope check of the resources\<close>

lemma count_set_filter: "count_set vs n = n + length (filter is_set vs)"
  by (induction vs arbitrary: n) simp_all

lemma validateScope_conflict:
  "1 < length (filter is_set (scope_attrs data)) \<Longrightarrow>
   validateScope data =
     Some (New ''at most one of unencrypted_suffix, encrypted_suffix, unencrypted_regex, encrypted_regex may be set'')"
  by (simp add: validateScope_def count_set_filter)

lemma validateScope_ok:
  "length (filter is_set (scope_attrs data)) \<le> 1 \<Longrightarrow> validateScope data = None"
  by (simp add: validateScope_def count_set_filter)

lemma Create_conflict:
  "\<not> HasError plan_diags \<Longrightarrow> 1 < length (filter is_set (scope_attrs data)) \<Longrightarrow>
   Create encrypt set_diags plan_diags data w =
     (Returned \<lparr>Diagnostics = plan_diags @
                 [\<lparr>Severity = SeverityError, Summary = ''Invalid scope configuration'',
                   Detail = ''at most one of unencrypted_suffix, encrypted_suffix, unencrypted_regex, encrypted_regex may be set''\<rparr>],
               State = None\<rparr>, w)"
  by (simp add: Create_def validateScope_conflict AddError_def)

lemma HasError_append_error:
  "HasError (ds @ [\<lparr>Severity = SeverityError, Summary = s, Detail = d\<rparr>])"
  by (simp add: HasError_def)

lemma Create_conflict_any_plan:
  assumes "1 < length (filter is_set (scope_attrs data))"
  shows "snd (Create encrypt set_diags plan_diags data w) = w"
    and "\<exists>resp. fst (Create encrypt set_diags plan_diags data w) = Returned resp
           \<and> HasError (Diagnostics resp) \<and> State resp = None"
  using assms
  by (simp_all add: Create_def validateScope_conflict AddError_def HasError_append_error Let_def)

text \<open>
  Claim C2. The check for conflicting scope fields is the first thing \<open>Create\<close> of
  either resource does with the decoded plan. When more than one scope attribute is
  known, not null and not empty, \<open>Create\<close> returns with an error diagnostic and
  no state, and leaves the world as it was: no client is made, no key is drawn,
  nothing is written to Vault. When the plan decoded without error the diagnostic is
  \<open>Invalid scope configuration\<close>.
\<close>

theorem Create_refuses_two_scope_fields:
  "(1 < length (filter is_set (scope_attrs dj)) \<longrightarrow>
      snd (Create_json L pd set_j plan_diags dj w) = w
    \<and> (\<exists>resp. fst (Create_json L pd set_j plan_diags dj w) = Returned resp
          \<and> HasError (Diagnostics resp) \<and> State resp = None)
    \<and> (\<not> HasError plan_diags \<longrightarrow>
         fst (Create_json L pd set_j plan_diags dj w) =
           Returned \<lparr>Diagnostics = plan_diags @
                       [\<lparr>Severity = SeverityError, Summary = ''Invalid scope configuration'',
                         Detail = ''at most one of unencrypted_suffix, encrypted_suffix, unencrypted_regex, encrypted_regex may be set''\<rparr>],
                     State = None\<rparr>))
 \<and> (1 < length (filter is_set (scope_attrs dy)) \<longrightarrow>
      snd (Create_yaml L pd set_y plan_diags dy w) = w
    \<and> (\<exists>resp. fst (Create_yaml L pd set_y plan_diags dy w) = Returned resp
          \<and> HasError (Diagnostics resp) \<and> State resp = None)
    \<and> (\<not> HasError plan_diags \<longrightarrow>
         fst (Create_yaml L pd set_y plan_diags dy w) =
           Returned \<lparr>Diagnostics = plan_diags @
                       [\<lparr>Severity = SeverityError, Summary = ''Invalid scope configuration'',
                         Detail = ''at most one of unencrypted_suffix, encrypted_suffix, unencrypted_regex, encrypted_regex may be set''\<rparr>],
                     State = None\<rparr>))"
  by (simp add: Create_json_def Create_yaml_def Create_conflict Create_conflict_any_plan)

theorem Create_refuses_two_scope_fields_witness:
  "Create_json test_deps test_provider (\<lambda>d. []) [] conflicting_plan test_world =
     (Returned \<lparr>Diagnostics =
                 [\<lparr>Severity = SeverityError, Summary = ''Invalid scope configuration'',
                   Detail = ''at most one of unencrypted_suffix, encrypted_suffix, unencrypted_regex, encrypted_regex may be set''\<rparr>],
               State = None\<rparr>, test_world)
   \<and> wrap_calls (calls_during test_world
        (snd (Create_json test_deps test_provider (\<lambda>d. []) [] conflicting_plan test_world))) = 0"
proof -
  have h1: "\<not> HasError []" by (simp add: HasError_def)
  have h2: "1 < length (filter is_set (scope_attrs conflicting_plan))"
    by (simp add: scope_attrs_def conflicting_plan_def is_set_def)
  note inst = Create_refuses_two_scope_fields
    [of conflicting_plan test_deps test_provider "\<lambda>d. []" "[]" test_world, THEN conjunct1]
  from inst h2 have w: "snd (Create_json test_deps test_provider (\<lambda>d. []) [] conflicting_plan test_world) = test_world"
    by blast
  from inst h1 h2 have r: "fst (Create_json test_deps test_provider (\<lambda>d. []) [] conflicting_plan test_world) =
      Returned \<lparr>Diagnostics = [] @
                 [\<lparr>Severity = SeverityError, Summary = ''Invalid scope configuration'',
                   Detail = ''at most one of unencrypted_suffix, encrypted_suffix, unencrypted_regex, encrypted_regex may be set''\<rparr>],
               State = None\<rparr>"
    by blast
  from w r show ?thesis by (simp add: prod_eq_iff calls_during_def wrap_calls_def)
qed

text \<open>
  The check is the resources' alone. \<open>EncryptToJSON\<close> and \<open>EncryptToYAML\<close> take
  the options as they come (the comment on \<open>EncryptOpts\<close> asks the caller for at
  most one non-empty scope field): called with two scope fields set,
  \<open>EncryptToJSON\<close> writes the key-wrap request and returns a document.
\<close>

lemma EncryptToJSON_does_not_validate_scope:
  "UnencryptedSuffix two_scopes \<noteq> [] \<and> EncryptedSuffix two_scopes \<noteq> []
   \<and> fst (EncryptToJSON test_deps test_client ''transit'' ''k'' ''{}'' two_scopes test_world)
       = Returned (''{}'', None)
   \<and> wrap_calls (calls_during test_world
        (snd (EncryptToJSON test_deps test_client ''transit'' ''k'' ''{}'' two_scopes test_world))) = 1"
  by (simp add: EncryptToJSON_def encryptDocument_def generateDataKey_def wrapDataKey_def
      test_deps_def test_world_def two_scopes_def no_scope_def mockVaultWrite_def document_tree_def
      calls_during_def wrap_calls_def Let_def)

section \<open>The key-wrap call\<close>

lemma encryptDocument_success_trace:
  assumes "fst (encryptDocument L c tp kn js opts emit w) = Returned (out, None)"
  shows "\<exists>key. trace (snd (encryptDocument L c tp kn js opts emit w)) = trace w @ take 5 (stages L tp kn key)"
proof (cases "LoadPlainFile L js")
  case (Inl e)
  with assms show ?thesis by (simp add: encryptDocument_parse_error)
next
  case (Inr b)
  obtain res r where rr: "rand_Read L 32 (rng w) = (res, r)" by (cases "rand_Read L 32 (rng w)")
  show ?thesis
  proof (cases res)
    case (Inl e)
    with Inr rr assms show ?thesis by (simp add: encryptDocument_keygen_error)
  next
    case (Inr bs)
    with \<open>LoadPlainFile L js = Inr b\<close> rr assms
    have "trace (snd (encryptDocument L c tp kn js opts emit w)) = trace w @ take 5 (stages L tp kn (fill 32 bs))"
      by (auto simp: encryptDocument_after_keygen stages_def Let_def
          split: outcome.splits prod.splits option.splits sum.splits)
    then show ?thesis by blast
  qed
qed

lemma take_stages_Suc5:
  "take 5 (stages L tp kn key) @ [EvIndent] = take 6 (stages L tp kn key)"
  by (simp add: stages_def)

lemma EncryptToJSON_trace:
  "\<exists>n key. trace (snd (EncryptToJSON L c tp kn js opts w)) = trace w @ take n (stages L tp kn key)"
proof -
  let ?ed = "encryptDocument L c tp kn js opts (json_EmitEncryptedFile L) w"
  obtain res w1 where ed: "?ed = (res, w1)" by (cases ?ed)
  show ?thesis
  proof (cases "\<exists>out. res = Returned (out, None)")
    case True
    then obtain out where res: "res = Returned (out, None)" by blast
    with ed have "fst ?ed = Returned (out, None)" by simp
    from encryptDocument_success_trace[OF this] ed
    obtain key where t: "trace w1 = trace w @ take 5 (stages L tp kn key)" by auto
    have "trace (snd (EncryptToJSON L c tp kn js opts w)) = trace w @ take 5 (stages L tp kn key)
        \<or> trace (snd (EncryptToJSON L c tp kn js opts w)) = trace w @ take 6 (stages L tp kn key)"
      using ed res t take_stages_Suc5[of L tp kn key]
      by (auto simp: EncryptToJSON_eq split: sum.splits)
    then show ?thesis by blast
  next
    case False
    then have "EncryptToJSON L c tp kn js opts w = ?ed"
      using ed by (auto simp: EncryptToJSON_eq split: outcome.splits option.splits)
    then show ?thesis using encryptDocument_trace[of L c tp kn js opts "json_EmitEncryptedFile L" w]
      by simp
  qed
qed

lemma EncryptToJSON_wrap_calls:
  "wrap_calls (calls_during w (snd (EncryptToJSON L c tp kn js opts w))) =
     wrap_calls (calls_during w (snd (encryptDocument L c tp kn js opts (json_EmitEncryptedFile L) w)))"
proof -
  let ?ed = "encryptDocument L c tp kn js opts (json_EmitEncryptedFile L) w"
  obtain n key where t: "trace (snd ?ed) = trace w @ take n (stages L tp kn key)"
    using encryptDocument_trace[of L c tp kn js opts "json_EmitEncryptedFile L" w] by blast
  have "snd (EncryptToJSON L c tp kn js opts w) = snd ?ed
      \<or> snd (EncryptToJSON L c tp kn js opts w) = record_call EvIndent (snd ?ed)"
    by (auto simp: EncryptToJSON_eq split: prod.splits outcome.splits option.splits sum.splits)
  then show ?thesis
  proof
    assume "snd (EncryptToJSON L c tp kn js opts w) = snd ?ed"
    then show ?thesis by simp
  next
    assume "snd (EncryptToJSON L c tp kn js opts w) = record_call EvIndent (snd ?ed)"
    then have "trace (snd (EncryptToJSON L c tp kn js opts w)) = trace w @ (take n (stages L tp kn key) @ [EvIndent])"
      using t by simp
    then have "calls_during w (snd (EncryptToJSON L c tp kn js opts w)) = take n (stages L tp kn key) @ [EvIndent]"
      by (rule calls_during_append)
    moreover have "calls_during w (snd ?ed) = take n (stages L tp kn key)"
      using t by (rule calls_during_append)
    ultimately show ?thesis by (simp add: wrap_calls_def)
  qed
qed

lemma encryptDocument_wrap_refused:
  assumes "LoadPlainFile L js = Inr b" and "rand_Read L 32 (rng w) = (Inr bs, r)"
    and "(\<exists>e. Logical_Write L c (tp @ ''/encrypt/'' @ kn)
               [(''plaintext'', IString (EncodeToString L (fill 32 bs)))] = Inl e)
       \<or> (\<exists>s. Logical_Write L c (tp @ ''/encrypt/'' @ kn)
               [(''plaintext'', IString (EncodeToString L (fill 32 bs)))] = Inr (Some s)
             \<and> (\<forall>ct. Data s ''ciphertext'' \<noteq> Some (IString ct)))"
  shows "\<exists>err. encryptDocument L c tp kn js opts emit w =
           (Returned ([], Some err),
            w\<lparr>rng := r, trace := trace w @ [EvLoadPlainFile, EvRandRead, wrap_request L tp kn (fill 32 bs)]\<rparr>)"
  using assms
  by (auto simp: encryptDocument_after_keygen wrapDataKey_result Let_def record_call_def
      split: option.splits iface.splits)

lemma Create_encrypt_error:
  "\<not> HasError plan_diags \<Longrightarrow> validateScope data = None \<Longrightarrow>
   fst (encrypt data w) = Returned (x, Some err) \<Longrightarrow>
   fst (Create encrypt set_diags plan_diags data w) =
     Returned \<lparr>Diagnostics = plan_diags @
                 [\<lparr>Severity = SeverityError, Summary = ''SOPS encryption failed'', Detail = Error err\<rparr>],
               State = None\<rparr>"
  by (cases "encrypt data w") (simp add: Create_def AddError_def)

text \<open>
  Claim C4, as the code has it. A call of \<open>EncryptToJSON\<close> or \<open>EncryptToYAML\<close>
  writes one key-wrap request when the parser and the random source succeed, and
  none otherwise. Its calls are an initial part of the sequence parse, random read,
  key wrap, tree encryption, serialisation, indentation: the key wrap comes after the
  first two and before the tree is encrypted. When \<open>Write\<close> returns an error, or a
  secret with no string ciphertext, the call returns an error and has made the first
  three calls only, so the tree was never encrypted; and \<open>Create\<close> answers an error
  of \<open>encrypt\<close> with an error diagnostic and sets no state.
\<close>

theorem wrap_called_once_after_keygen:
  "wrap_calls (calls_during w (snd (EncryptToJSON L c tp kn js opts w))) =
     (if \<not> isl (LoadPlainFile L js) \<and> \<not> isl (fst (rand_Read L 32 (rng w))) then 1 else 0)
 \<and> wrap_calls (calls_during w (snd (EncryptToYAML L c tp kn js opts w))) =
     (if \<not> isl (LoadPlainFile L js) \<and> \<not> isl (fst (rand_Read L 32 (rng w))) then 1 else 0)
 \<and> (\<exists>n key. calls_during w (snd (EncryptToJSON L c tp kn js opts w)) = take n (stages L tp kn key))
 \<and> (\<exists>n key. calls_during w (snd (EncryptToYAML L c tp kn js opts w)) = take n (stages L tp kn key))
 \<and> (\<forall>b bs r.
       LoadPlainFile L js = Inr b \<and> rand_Read L 32 (rng w) = (Inr bs, r) \<and>
       ((\<exists>e. Logical_Write L c (tp @ ''/encrypt/'' @ kn)
                [(''plaintext'', IString (EncodeToString L (fill 32 bs)))] = Inl e)
        \<or> (\<exists>s. Logical_Write L c (tp @ ''/encrypt/'' @ kn)
                [(''plaintext'', IString (EncodeToString L (fill 32 bs)))] = Inr (Some s)
              \<and> (\<forall>ct. Data s ''ciphertext'' \<noteq> Some (IString ct)))) \<longrightarrow>
       (\<exists>err. fst (EncryptToJSON L c tp kn js opts w) = Returned ([], Some err))
     \<and> (\<exists>err. fst (EncryptToYAML L c tp kn js opts w) = Returned ([], Some err))
     \<and> calls_during w (snd (EncryptToJSON L c tp kn js opts w)) =
         [EvLoadPlainFile, EvRandRead, wrap_request L tp kn (fill 32 bs)]
     \<and> calls_during w (snd (EncryptToYAML L c tp kn js opts w)) =
         [EvLoadPlainFile, EvRandRead, wrap_request L tp kn (fill 32 bs)])
 \<and> (\<forall>x err. \<not> HasError plan_diags \<and> validateScope dj = None \<and>
       fst (encrypt_json L pd dj w) = Returned (x, Some err) \<longrightarrow>
       fst (Create_json L pd set_j plan_diags dj w) =
         Returned \<lparr>Diagnostics = plan_diags @
                     [\<lparr>Severity = SeverityError, Summary = ''SOPS encryption failed'', Detail = Error err\<rparr>],
                   State = None\<rparr>)
 \<and> (\<forall>x err. \<not> HasError plan_diags \<and> validateScope dy = None \<and>
       fst (encrypt_yaml L pd dy w) = Returned (x, Some err) \<longrightarrow>
       fst (Create_yaml L pd set_y plan_diags dy w) =
         Returned \<lparr>Diagnostics = plan_diags @
                     [\<lparr>Severity = SeverityError, Summary = ''SOPS encryption failed'', Detail = Error err\<rparr>],
                   State = None\<rparr>)"
proof (intro conjI allI impI)
  show "wrap_calls (calls_during w (snd (EncryptToJSON L c tp kn js opts w))) =
     (if \<not> isl (LoadPlainFile L js) \<and> \<not> isl (fst (rand_Read L 32 (rng w))) then 1 else 0)"
    by (simp only: EncryptToJSON_wrap_calls encryptDocument_wrap_calls)
next
  show "wrap_calls (calls_during w (snd (EncryptToYAML L c tp kn js opts w))) =
     (if \<not> isl (LoadPlainFile L js) \<and> \<not> isl (fst (rand_Read L 32 (rng w))) then 1 else 0)"
    by (simp only: EncryptToYAML_eq encryptDocument_wrap_calls)
next
  show "\<exists>n key. calls_during w (snd (EncryptToJSON L c tp kn js opts w)) = take n (stages L tp kn key)"
  proof -
    obtain n key where "trace (snd (EncryptToJSON L c tp kn js opts w)) = trace w @ take n (stages L tp kn key)"
      using EncryptToJSON_trace[of L c tp kn js opts w] by blast
    then have "calls_during w (snd (EncryptToJSON L c tp kn js opts w)) = take n (stages L tp kn key)"
      by (rule calls_during_append)
    then show ?thesis by blast
  qed
next
  show "\<exists>n key. calls_during w (snd (EncryptToYAML L c tp kn js opts w)) = take n (stages L tp kn key)"
  proof -
    obtain n key where "trace (snd (EncryptToYAML L c tp kn js opts w)) = trace w @ take n (stages L tp kn key)"
      using encryptDocument_trace[of L c tp kn js opts "yaml_EmitEncryptedFile L" w]
      by (auto simp: EncryptToYAML_eq)
    then have "calls_during w (snd (EncryptToYAML L c tp kn js opts w)) = take n (stages L tp kn key)"
      by (rule calls_during_append)
    then show ?thesis by blast
  qed
next
  fix b bs r
  assume h: "LoadPlainFile L js = Inr b \<and> rand_Read L 32 (rng w) = (Inr bs, r) \<and>
       ((\<exists>e. Logical_Write L c (tp @ ''/encrypt/'' @ kn)
                [(''plaintext'', IString (EncodeToString L (fill 32 bs)))] = Inl e)
        \<or> (\<exists>s. Logical_Write L c (tp @ ''/encrypt/'' @ kn)
                [(''plaintext'', IString (EncodeToString L (fill 32 bs)))] = Inr (Some s)
              \<and> (\<forall>ct. Data s ''ciphertext'' \<noteq> Some (IString ct))))"
  from h obtain ej where ej: "encryptDocument L c tp kn js opts (json_EmitEncryptedFile L) w =
      (Returned ([], Some ej),
       w\<lparr>rng := r, trace := trace w @ [EvLoadPlainFile, EvRandRead, wrap_request L tp kn (fill 32 bs)]\<rparr>)"
    using encryptDocument_wrap_refused[of L js b w bs r c tp kn opts "json_EmitEncryptedFile L"] by blast
  from h obtain ey where ey: "encryptDocument L c tp kn js opts (yaml_EmitEncryptedFile L) w =
      (Returned ([], Some ey),
       w\<lparr>rng := r, trace := trace w @ [EvLoadPlainFile, EvRandRead, wrap_request L tp kn (fill 32 bs)]\<rparr>)"
    using encryptDocument_wrap_refused[of L js b w bs r c tp kn opts "yaml_EmitEncryptedFile L"] by blast
  show "\<exists>err. fst (EncryptToJSON L c tp kn js opts w) = Returned ([], Some err)"
    using ej by (simp add: EncryptToJSON_eq)
  show "\<exists>err. fst (EncryptToYAML L c tp kn js opts w) = Returned ([], Some err)"
    using ey by (simp add: EncryptToYAML_eq)
  show "calls_during w (snd (EncryptToJSON L c tp kn js opts w)) =
         [EvLoadPlainFile, EvRandRead, wrap_request L tp kn (fill 32 bs)]"
    using ej by (simp add: EncryptToJSON_eq calls_during_def)
  show "calls_during w (snd (EncryptToYAML L c tp kn js opts w)) =
         [EvLoadPlainFile, EvRandRead, wrap_request L tp kn (fill 32 bs)]"
    using ey by (simp add: EncryptToYAML_eq calls_during_def)
next
  fix x err
  assume "\<not> HasError plan_diags \<and> validateScope dj = None \<and>
       fst (encrypt_json L pd dj w) = Returned (x, Some err)"
  then show "fst (Create_json L pd set_j plan_diags dj w) =
         Returned \<lparr>Diagnostics = plan_diags @
                     [\<lparr>Severity = SeverityError, Summary = ''SOPS encryption failed'', Detail = Error err\<rparr>],
                   State = None\<rparr>"
    by (simp add: Create_json_def Create_encrypt_error)
next
  fix x err
  assume "\<not> HasError plan_diags \<and> validateScope dy = None \<and>
       fst (encrypt_yaml L pd dy w) = Returned (x, Some err)"
  then show "fst (Create_yaml L pd set_y plan_diags dy w) =
         Returned \<lparr>Diagnostics = plan_diags @
                     [\<lparr>Severity = SeverityError, Summary = ''SOPS encryption failed'', Detail = Error err\<rparr>],
                   State = None\<rparr>"
    by (simp add: Create_yaml_def Create_encrypt_error)
qed

text \<open>
  Claim C4 as stated, exactly one key-wrap call in every encryption call, fails on an
  input the parser refuses: the call returns the parse error and has written nothing
  to Vault.
\<close>

theorem EncryptToJSON_parse_error_no_wrap_call:
  "fst (EncryptToJSON test_deps test_client ''transit'' ''k'' [] no_scope test_world) =
     Returned ([], Some (Errorf ''parsing content as JSON'' (New ''unexpected end of JSON input'')))
   \<and> wrap_calls (calls_during test_world
        (snd (EncryptToJSON test_deps test_client ''transit'' ''k'' [] no_scope test_world))) = 0"
  by (simp add: EncryptToJSON_def encryptDocument_def test_deps_def test_world_def
      calls_during_def wrap_calls_def Let_def)

theorem wrap_called_once_after_keygen_witness:
  "wrap_calls (calls_during test_world
     (snd (EncryptToJSON failing_vault_deps test_client ''transit'' ''k'' ''{}'' no_scope test_world))) = 1
   \<and> calls_during test_world
        (snd (EncryptToYAML failing_vault_deps test_client ''transit'' ''k'' ''{}'' no_scope test_world)) =
       [EvLoadPlainFile, EvRandRead,
        wrap_request failing_vault_deps ''transit'' ''k'' (fill 32 (replicate 32 0))]"
proof -
  let ?L = failing_vault_deps
  note inst = wrap_called_once_after_keygen
      [of test_world ?L test_client "''transit''" "''k''" "''{}''" no_scope]
  have h1: "LoadPlainFile ?L ''{}'' = Inr ''{}''"
    by (simp add: failing_vault_deps_def test_deps_def)
  have h2: "rand_Read ?L 32 (rng test_world) = (Inr (replicate 32 0), 1)"
    by (simp add: failing_vault_deps_def test_deps_def test_world_def)
  have h3: "Logical_Write ?L test_client (''transit'' @ ''/encrypt/'' @ ''k'')
              [(''plaintext'', IString (EncodeToString ?L (fill 32 (replicate 32 0))))]
            = Inl (New ''permission denied'')"
    by (simp add: failing_vault_deps_def)
  have "wrap_calls (calls_during test_world
     (snd (EncryptToJSON ?L test_client ''transit'' ''k'' ''{}'' no_scope test_world))) =
     (if \<not> isl (LoadPlainFile ?L ''{}'') \<and> \<not> isl (fst (rand_Read ?L 32 (rng test_world))) then 1 else 0)"
    using inst by (rule conjunct1)
  then have one: "wrap_calls (calls_during test_world
     (snd (EncryptToJSON ?L test_client ''transit'' ''k'' ''{}'' no_scope test_world))) = 1"
    by (simp add: h1 h2)
  have "\<forall>b bs r.
       LoadPlainFile ?L ''{}'' = Inr b \<and> rand_Read ?L 32 (rng test_world) = (Inr bs, r) \<and>
       ((\<exists>e. Logical_Write ?L test_client (''transit'' @ ''/encrypt/'' @ ''k'')
                [(''plaintext'', IString (EncodeToString ?L (fill 32 bs)))] = Inl e)
        \<or> (\<exists>s. Logical_Write ?L test_client (''transit'' @ ''/encrypt/'' @ ''k'')
                [(''plaintext'', IString (EncodeToString ?L (fill 32 bs)))] = Inr (Some s)
              \<and> (\<forall>ct. Data s ''ciphertext'' \<noteq> Some (IString ct)))) \<longrightarrow>
       calls_during test_world
         (snd (EncryptToYAML ?L test_client ''transit'' ''k'' ''{}'' no_scope test_world)) =
         [EvLoadPlainFile, EvRandRead, wrap_request ?L ''transit'' ''k'' (fill 32 bs)]"
    using inst[THEN conjunct2, THEN conjunct2, THEN conjunct2, THEN conjunct2, THEN conjunct1]
    by blast
  with h1 h2 h3 have "calls_during test_world
        (snd (EncryptToYAML ?L test_client ''transit'' ''k'' ''{}'' no_scope test_world)) =
       [EvLoadPlainFile, EvRandRead, wrap_request ?L ''transit'' ''k'' (fill 32 (replicate 32 0))]"
    by blast
  with one show ?thesis by blast
qed

end
